(* ===== verification/Prelude.thy ===== *)
theory Prelude
  imports Main
begin

text \<open>
  Shared vocabulary of the development: the small pieces of JavaScript semantics that
  the three drone extensions rely on, written once and used by every component.
  \<^item> \<open>utf8\<close> spells the Japanese menu and label literals of the sources as the byte
    strings they are in the UTF-8 source files (the file is ASCII, so a literal is
    written as its list of Unicode code points);
  \<^item> \<open>js_clamp_hi\<close> and \<open>js_sign\<close> are the two expression idioms every velocity
    handler uses (\<open>n > 100 ? 100 : n\<close> and \<open>var a = 1; if (m == neg) a = -1\<close>);
  \<^item> \<open>js_num_str\<close> is the ECMAScript conversion of an integral Number to a String
    performed by \<open>"..." + x\<close>, and \<open>parse_int\<close> reads it back;
  \<^item> \<open>split_on\<close> splits a message at a separator, as the simulator's decoder does;
  \<^item> \<open>js_then\<close> sequences two statements that may throw, keeping the state the
    first one left behind (a JavaScript exception does not roll back mutations).
\<close>

named_theorems js_simps "evaluation rules of the JavaScript helpers"
named_theorems num_str_simps "facts about printed numbers"
named_theorems lit_simps "evaluation of literal byte strings"

section \<open>Literals: UTF-8 byte strings\<close>

text \<open>One code point of the Basic Multilingual Plane as one, two or three bytes.\<close>

fun utf8_char :: "nat \<Rightarrow> string" where
  "utf8_char c =
    (if c < 0x80 then [char_of c]
     else if c < 0x800 then [char_of (0xC0 + c div 64), char_of (0x80 + c mod 64)]
     else [char_of (0xE0 + c div 4096), char_of (0x80 + (c div 64) mod 64),
           char_of (0x80 + c mod 64)])"

definition utf8 :: "nat list \<Rightarrow> string" where
  "utf8 cs = concat (map utf8_char cs)"

declare utf8_def [lit_simps] char_of_eq_iff [lit_simps]

section \<open>Expression idioms of the handlers\<close>

text \<open>\<open>var tmp = args.n > lim ? lim : args.n\<close>: an upper bound only.\<close>

definition js_clamp_hi :: "int \<Rightarrow> int \<Rightarrow> int" where
  "js_clamp_hi lim x = (if x > lim then lim else x)"

text \<open>\<open>var a = 1; if (args.m == neg) a = -1;\<close>\<close>

definition js_sign :: "string \<Rightarrow> string \<Rightarrow> int" where
  "js_sign neg m = (if m = neg then -1 else 1)"

section \<open>Numbers printed into strings\<close>

definition digit_char :: "nat \<Rightarrow> char" where
  "digit_char d = char_of (48 + d)"

fun nat_str :: "nat \<Rightarrow> string" where
  "nat_str n = (if n < 10 then [digit_char n] else nat_str (n div 10) @ [digit_char (n mod 10)])"

text \<open>
  \<open>"..." + x\<close> for a Number \<open>x\<close> with an integral value: decimal digits, a minus
  sign for negative values; \<open>-0\<close> prints as \<open>0\<close>, which \<open>int\<close> cannot even express.
\<close>

definition js_num_str :: "int \<Rightarrow> string" where
  "js_num_str i = (if i < 0 then CHR ''-'' # nat_str (nat (- i)) else nat_str (nat i))"

text \<open>The reading side: decimal digits, then an optional leading minus sign.\<close>

definition is_digit :: "char \<Rightarrow> bool" where
  "is_digit c \<longleftrightarrow> 48 \<le> (of_char c :: nat) \<and> (of_char c :: nat) < 58"

fun parse_digits :: "nat \<Rightarrow> string \<Rightarrow> nat option" where
  "parse_digits acc [] = Some acc"
| "parse_digits acc (c # cs) =
     (if is_digit c then parse_digits (10 * acc + (of_char c - 48)) cs else None)"

definition parse_nat :: "string \<Rightarrow> nat option" where
  "parse_nat s = (if s = [] then None else parse_digits 0 s)"

definition parse_int :: "string \<Rightarrow> int option" where
  "parse_int s =
     (case s of
        c # ds \<Rightarrow> if c = CHR ''-'' then map_option (\<lambda>n. - int n) (parse_nat ds)
                  else map_option int (parse_nat s)
      | [] \<Rightarrow> None)"

section \<open>Splitting a message at a separator\<close>

fun split_on :: "char \<Rightarrow> string \<Rightarrow> string list" where
  "split_on c [] = [[]]"
| "split_on c (x # xs) =
     (if x = c then [] # split_on c xs
      else (let r = split_on c xs in (x # hd r) # tl r))"

text \<open>Joining fields with a separator: the inverse of \<open>split_on\<close>.\<close>

fun join_with :: "char \<Rightarrow> string list \<Rightarrow> string" where
  "join_with c [] = []"
| "join_with c [w] = w"
| "join_with c (w # ws) = w @ c # join_with c ws"

section \<open>Statements that may throw\<close>

text \<open>
  A statement is a state transformer that also says whether it completed or threw.
  \<open>js_then f g\<close> runs \<open>g\<close> only when \<open>f\<close> completed; a throw keeps \<open>f\<close>'s state.
\<close>

definition js_then ::
  "('s \<Rightarrow> 's \<times> ('e + unit)) \<Rightarrow> ('s \<Rightarrow> 's \<times> ('e + 'a)) \<Rightarrow> 's \<Rightarrow> 's \<times> ('e + 'a)" where
  "js_then f g s = (case f s of (s', Inl e) \<Rightarrow> (s', Inl e) | (s', Inr _) \<Rightarrow> g s')"

section \<open>Lemmas\<close>

subsection \<open>Clamp and sign\<close>

lemma js_sign_cases [js_simps]:
  "js_sign neg neg = -1" "m \<noteq> neg \<Longrightarrow> js_sign neg m = 1"
  by (simp_all add: js_sign_def)

lemma js_sign_abs [simp]: "\<bar>js_sign neg m\<bar> = 1"
  by (simp add: js_sign_def)

lemma js_clamp_hi_le [simp]: "js_clamp_hi lim x \<le> lim"
  by (simp add: js_clamp_hi_def)

lemma abs_sign_mult [simp]: "\<bar>js_sign neg m * x\<bar> = \<bar>x\<bar>"
  by (simp add: abs_mult)

subsection \<open>Printing and reading numbers\<close>

declare nat_str.simps [simp del]

lemma digit_char_is_digit [num_str_simps]: "d < 10 \<Longrightarrow> is_digit (digit_char d)"
  by (simp add: digit_char_def is_digit_def)

lemma of_digit_char [num_str_simps]: "d < 10 \<Longrightarrow> of_char (digit_char d) - 48 = d"
  by (simp add: digit_char_def)

lemma nat_str_nonempty [num_str_simps]: "nat_str n \<noteq> []"
  by (subst nat_str.simps) simp

lemma nat_str_digits: "c \<in> set (nat_str n) \<Longrightarrow> is_digit c"
proof (induction n rule: nat_str.induct)
  case (1 n)
  then show ?case
    by (cases "n < 10") (auto simp: nat_str.simps [of n] digit_char_is_digit)
qed

lemma not_digit_sep [num_str_simps]:
  "\<not> is_digit CHR '',''" "\<not> is_digit CHR '':''" "\<not> is_digit CHR ''-''"
  by (simp_all add: is_digit_def)

lemma sep_notin_nat_str [num_str_simps]:
  "CHR '','' \<notin> set (nat_str n)" "CHR '':'' \<notin> set (nat_str n)" "CHR ''-'' \<notin> set (nat_str n)"
  using nat_str_digits not_digit_sep by blast+

lemma sep_notin_js_num_str [num_str_simps]:
  "CHR '','' \<notin> set (js_num_str i)" "CHR '':'' \<notin> set (js_num_str i)"
  by (simp_all add: js_num_str_def sep_notin_nat_str)

lemma js_num_str_nonempty [num_str_simps]: "js_num_str i \<noteq> []"
  by (simp add: js_num_str_def nat_str_nonempty)

lemma parse_digits_append:
  "parse_digits acc (xs @ ys) =
     (case parse_digits acc xs of None \<Rightarrow> None | Some a \<Rightarrow> parse_digits a ys)"
  by (induction acc xs rule: parse_digits.induct) auto

lemma parse_digits_nat_str: "parse_digits 0 (nat_str n) = Some n"
proof (induction n rule: nat_str.induct)
  case (1 n)
  show ?case
  proof (cases "n < 10")
    case True
    then show ?thesis
      by (simp add: nat_str.simps [of n] digit_char_is_digit of_digit_char)
  next
    case False
    with "1.IH" have "parse_digits 0 (nat_str (n div 10)) = Some (n div 10)" by simp
    with False show ?thesis
      by (simp add: nat_str.simps [of n] parse_digits_append digit_char_is_digit of_digit_char)
  qed
qed

lemma parse_nat_nat_str [num_str_simps]: "parse_nat (nat_str n) = Some n"
  by (simp add: parse_nat_def nat_str_nonempty parse_digits_nat_str)

lemma hd_nat_str_not_minus: "nat_str n = c # cs \<Longrightarrow> c \<noteq> CHR ''-''"
  using sep_notin_nat_str(3) [of n] by auto

lemma parse_int_js_num_str [num_str_simps]: "parse_int (js_num_str i) = Some i"
proof (cases "i < 0")
  case True
  then show ?thesis by (simp add: js_num_str_def parse_int_def parse_nat_nat_str)
next
  case False
  obtain c cs where cs: "nat_str (nat i) = c # cs"
    using nat_str_nonempty by (cases "nat_str (nat i)") auto
  with False show ?thesis
    using parse_nat_nat_str [of "nat i"] hd_nat_str_not_minus [OF cs]
    by (simp add: js_num_str_def parse_int_def)
qed

lemma js_num_str_inj [num_str_simps]: "js_num_str i = js_num_str j \<longleftrightarrow> i = j"
  by (metis option.inject parse_int_js_num_str)

subsection \<open>Splitting\<close>

lemma split_on_nonempty [simp]: "split_on c xs \<noteq> []"
  by (induction xs) (auto simp: Let_def)

lemma split_on_no_sep [js_simps]: "c \<notin> set w \<Longrightarrow> split_on c w = [w]"
  by (induction w) (auto simp: Let_def)

lemma split_on_append_sep [js_simps]:
  "c \<notin> set w \<Longrightarrow> split_on c (w @ c # rest) = w # split_on c rest"
  by (induction w) (auto simp: Let_def)

lemma split_on_join_with [js_simps]:
  "ws \<noteq> [] \<Longrightarrow> (\<forall>w\<in>set ws. c \<notin> set w) \<Longrightarrow> split_on c (join_with c ws) = ws"
proof (induction c ws rule: join_with.induct)
  case (3 c w v vs)
  then show ?case by (simp add: split_on_append_sep)
qed (simp_all add: split_on_no_sep)

subsection \<open>Sequencing\<close>

lemma js_then_Inr [js_simps]: "f s = (s', Inr u) \<Longrightarrow> js_then f g s = g s'"
  by (simp add: js_then_def)

lemma js_then_Inl [js_simps]: "f s = (s', Inl e) \<Longrightarrow> js_then f g s = (s', Inl e)"
  by (simp add: js_then_def)

lemma js_num_str_0: "js_num_str 0 = ''0''"
  by (simp add: js_num_str_def nat_str.simps digit_char_def lit_simps)

end
