(* ===== verification/Catalog.thy ===== *)
theory Catalog
  imports Prelude
begin

text \<open>
  The block catalogs: what \<open>getInfo()\<close> of each extension class returns to the
  Scratch runtime (the \<open>blockIconURI\<close> data URI left out).  The enumerations
  \<open>BlockType\<close> and \<open>ArgumentType\<close> are those of scratch-vm's
  \<open>extension-support\<close>, which the sources import; the string literals of menus and
  labels are written with \<open>utf8\<close> (Prelude).  \<open>opcodes\<close> lists a catalog's
  opcodes, which the runtime dispatches by.
\<close>

section \<open>Types of the catalog\<close>

datatype blockType = B_BOOLEAN | B_BUTTON | B_COMMAND | B_CONDITIONAL | B_EVENT | B_HAT
  | B_LOOP | B_REPORTER

datatype argumentType = A_ANGLE | A_BOOLEAN | A_COLOR | A_NUMBER | A_STRING | A_MATRIX
  | A_NOTE | A_IMAGE

text \<open>A JavaScript literal of a default value: a string or a number.\<close>

datatype js_val = JStr string | JNum int

record argInfo =
  arg_type :: argumentType
  arg_menu :: "string option"
  arg_default :: "js_val option"

record blockInfo =
  opcode :: string
  block_text :: string
  block_type :: blockType
  arguments :: "(string \<times> argInfo) list"

record extInfo =
  ext_id :: string
  ext_name :: string
  colour :: string
  colourSecondary :: string
  colourTertiary :: string
  blocks :: "blockInfo list"
  menus :: "(string \<times> string list) list"

section \<open>Menu items and labels\<close>

text \<open>Menu items (also the strings the handlers compare \<open>args.m\<close> with).\<close>

definition s_standard :: string where "s_standard = utf8 [0x6A19, 0x6E96]"
definition s_simulator :: string where "s_simulator = ''Simulator''"
definition s_forward :: string where "s_forward = utf8 [0x524D, 0x9032]"
definition s_backward :: string where "s_backward = utf8 [0x5F8C, 0x9032]"
definition s_right_move :: string where "s_right_move = utf8 [0x53F3, 0x79FB, 0x52D5]"
definition s_left_move :: string where "s_left_move = utf8 [0x5DE6, 0x79FB, 0x52D5]"
definition s_right_turn :: string where "s_right_turn = utf8 [0x53F3, 0x65CB, 0x56DE]"
definition s_left_turn :: string where "s_left_turn = utf8 [0x5DE6, 0x65CB, 0x56DE]"
definition s_up :: string where "s_up = utf8 [0x4E0A, 0x6607]"
definition s_down :: string where "s_down = utf8 [0x4E0B, 0x964D]"
definition s_front :: string where "s_front = utf8 [0x524D]"
definition s_back :: string where "s_back = utf8 [0x5F8C]"
definition s_right :: string where "s_right = utf8 [0x53F3]"
definition s_left :: string where "s_left = utf8 [0x5DE6]"
definition s_open :: string where "s_open = utf8 [0x958B, 0x304F]"
definition s_close :: string where "s_close = utf8 [0x9589, 0x3058, 0x308B]"
definition s_open_close :: string where
  "s_open_close = utf8 [0x958B, 0x304F, 0x2190, 0x2192, 0x9589, 0x3058, 0x308B]"
definition s_register :: string where "s_register = utf8 [0x767B, 0x9332, 0x3059, 0x308B]"
definition s_search :: string where "s_search = utf8 [0x63A2, 0x3059]"
definition s_center :: string where "s_center = utf8 [0x4E2D, 0x5FC3]"

lemmas menu_item_defs = s_standard_def s_simulator_def s_forward_def s_backward_def
  s_right_move_def s_left_move_def s_right_turn_def s_left_turn_def s_up_def s_down_def
  s_front_def s_back_def s_right_def s_left_def s_open_def s_close_def s_open_close_def
  s_register_def s_search_def s_center_def

text \<open>The word "speed" of the velocity labels, and the block labels.\<close>

definition w_speed :: string where "w_speed = utf8 [0x901F, 0x5EA6]"

definition block_labels :: "string \<Rightarrow> string" where
  "block_labels op =
    (if op = ''changeStage'' then
       utf8 [0x30B9, 0x30C6, 0x30FC, 0x30B8, 0x3092] @ ''[m]'' @
       utf8 [0x306B, 0x5207, 0x308A, 0x66FF, 0x3048, 0x308B]
     else if op = ''reset'' then utf8 [0x30EA, 0x30BB, 0x30C3, 0x30C8]
     else if op = ''connected'' then utf8 [0x63A5, 0x7D9A, 0x72B6, 0x614B]
     else if op = ''gaz'' then
       utf8 [0x30AE, 0x30E3, 0x30BA, 0xFF08, 0x4E0A, 0x4E0B, 0x901F, 0x5EA6, 0xFF09]
     else if op = ''pitch'' then
       utf8 [0x30D4, 0x30C3, 0x30C1, 0xFF08, 0x524D, 0x5F8C, 0x901F, 0x5EA6, 0xFF09]
     else if op = ''battery'' then utf8 [0x30D0, 0x30C3, 0x30C6, 0x30EA, 0x30FC]
     else if op = ''takeoff'' then utf8 [0x96E2, 0x9678, 0x3059, 0x308B]
     else if op = ''landing'' then utf8 [0x7740, 0x9678, 0x3059, 0x308B]
     else if op = ''stop'' then
       utf8 [0x79FB, 0x52D5, 0x505C, 0x6B62, 0xFF08, 0x30DB, 0x30D0, 0x30EA, 0x30F3,
             0x30B0, 0xFF09]
     else if op = ''set_speed'' then ''[m] '' @ w_speed @ ''[n]''
     else if op = ''cap'' then ''[m] '' @ utf8 [0x89D2, 0x5EA6] @ ''[n] '' @ utf8 [0x5EA6]
     else if op = ''flip'' then ''[m] '' @ utf8 [0x30D5, 0x30EA, 0x30C3, 0x30D7]
     else if op = ''light'' then utf8 [0x30E9, 0x30A4, 0x30C8] @ ''[n]''
     else if op = ''grab'' then utf8 [0x30A2, 0x30FC, 0x30E0, 0x3092] @ ''[m]''
     else if op = ''picture'' then utf8 [0x5199, 0x771F, 0x64AE, 0x5F71]
     else if op = ''shoot'' then utf8 [0x5F3E, 0x3092, 0x5C04, 0x3064]
     else if op = ''pitch_roll_yaw_gaz'' then
       ''[m] '' @ w_speed @ ''[n] | [o] '' @ w_speed @ ''[p] | [q] '' @ w_speed @
       ''[r] | [s] '' @ w_speed @ ''[t]''
     else if op = ''searchColor'' then ''[COLOR]'' @ utf8 [0x8272, 0x3092, 0x63A2, 0x3059]
     else if op = ''face'' then utf8 [0x9854, 0x3092] @ ''[m]''
     else if op = ''move'' then ''[m]'' @ utf8 [0x306B, 0x79FB, 0x52D5, 0x3059, 0x308B]
     else [])"

section \<open>Blocks\<close>

text \<open>Argument descriptors: a string argument with a menu and its default item, a
  number argument with its default, a bare argument of a type.\<close>

definition menu_arg :: "string \<Rightarrow> string \<Rightarrow> argInfo" where
  "menu_arg mn d = \<lparr>arg_type = A_STRING, arg_menu = Some mn, arg_default = Some (JStr d)\<rparr>"

definition num_arg :: "int \<Rightarrow> argInfo" where
  "num_arg d = \<lparr>arg_type = A_NUMBER, arg_menu = None, arg_default = Some (JNum d)\<rparr>"

definition bare_arg :: "argumentType \<Rightarrow> argInfo" where
  "bare_arg ty = \<lparr>arg_type = ty, arg_menu = None, arg_default = None\<rparr>"

definition mk_block :: "string \<Rightarrow> string \<Rightarrow> blockType \<Rightarrow> (string \<times> argInfo) list \<Rightarrow> blockInfo" where
  "mk_block op txt bt args = \<lparr>opcode = op, block_text = txt, block_type = bt, arguments = args\<rparr>"

text \<open>The blocks the three catalogs share, in their order of declaration.
  The \<open>roll\<close> reporter carries the label of \<open>pitch\<close>, as in all three sources.\<close>

definition b_changeStage :: blockInfo where
  "b_changeStage = mk_block ''changeStage'' (block_labels ''changeStage'') B_COMMAND
     [(''m'', menu_arg ''stage'' ''Simulator'')]"
definition b_reset :: blockInfo where
  "b_reset = mk_block ''reset'' (block_labels ''reset'') B_COMMAND []"
definition b_connected :: blockInfo where
  "b_connected = mk_block ''connected'' (block_labels ''connected'') B_BOOLEAN
     [(''CONNECTED'', bare_arg A_BOOLEAN)]"
definition b_gaz :: blockInfo where
  "b_gaz = mk_block ''gaz'' (block_labels ''gaz'') B_REPORTER []"
definition b_pitch :: blockInfo where
  "b_pitch = mk_block ''pitch'' (block_labels ''pitch'') B_REPORTER []"
definition b_roll :: blockInfo where
  "b_roll = mk_block ''roll'' (block_labels ''pitch'') B_REPORTER []"
definition b_battery :: blockInfo where
  "b_battery = mk_block ''battery'' (block_labels ''battery'') B_REPORTER []"
definition b_takeoff :: blockInfo where
  "b_takeoff = mk_block ''takeoff'' (block_labels ''takeoff'') B_COMMAND []"
definition b_landing :: blockInfo where
  "b_landing = mk_block ''landing'' (block_labels ''landing'') B_COMMAND []"
definition b_stop :: blockInfo where
  "b_stop = mk_block ''stop'' (block_labels ''stop'') B_COMMAND []"
definition b_set_gaz :: blockInfo where
  "b_set_gaz = mk_block ''set_gaz'' (block_labels ''set_speed'') B_COMMAND
     [(''m'', menu_arg ''gaz'' s_up), (''n'', num_arg 1)]"
definition b_set_pitch :: blockInfo where
  "b_set_pitch = mk_block ''set_pitch'' (block_labels ''set_speed'') B_COMMAND
     [(''m'', menu_arg ''pitch'' s_forward), (''n'', num_arg 1)]"
definition b_set_roll :: blockInfo where
  "b_set_roll = mk_block ''set_roll'' (block_labels ''set_speed'') B_COMMAND
     [(''m'', menu_arg ''roll'' s_right_move), (''n'', num_arg 1)]"
definition b_set_yaw :: blockInfo where
  "b_set_yaw = mk_block ''set_yaw'' (block_labels ''set_speed'') B_COMMAND
     [(''m'', menu_arg ''yaw'' s_right_turn), (''n'', num_arg 1)]"
definition b_cap :: blockInfo where
  "b_cap = mk_block ''cap'' (block_labels ''cap'') B_COMMAND
     [(''m'', menu_arg ''yaw'' s_right_turn), (''n'', num_arg 90)]"
definition b_flip :: blockInfo where
  "b_flip = mk_block ''flip'' (block_labels ''flip'') B_COMMAND
     [(''m'', menu_arg ''flip'' s_front)]"
definition b_light :: blockInfo where
  "b_light = mk_block ''light'' (block_labels ''light'') B_COMMAND [(''n'', num_arg 0)]"
definition b_grab :: blockInfo where
  "b_grab = mk_block ''grab'' (block_labels ''grab'') B_COMMAND
     [(''m'', menu_arg ''grab'' s_open_close)]"
definition b_picture :: blockInfo where
  "b_picture = mk_block ''picture'' (block_labels ''picture'') B_COMMAND []"
definition b_shoot :: blockInfo where
  "b_shoot = mk_block ''shoot'' (block_labels ''shoot'') B_COMMAND []"
definition b_pitch_roll_yaw_gaz :: blockInfo where
  "b_pitch_roll_yaw_gaz = mk_block ''pitch_roll_yaw_gaz'' (block_labels ''pitch_roll_yaw_gaz'')
     B_COMMAND
     [(''m'', menu_arg ''pitch'' s_forward), (''n'', num_arg 0),
      (''o'', menu_arg ''roll'' s_right_move), (''p'', num_arg 0),
      (''q'', menu_arg ''yaw'' s_right_turn), (''r'', num_arg 0),
      (''s'', menu_arg ''gaz'' s_up), (''t'', num_arg 0)]"
definition b_searchColor :: blockInfo where
  "b_searchColor = mk_block ''searchColor'' (block_labels ''searchColor'') B_COMMAND
     [(''COLOR'', bare_arg A_COLOR)]"
definition b_face :: blockInfo where
  "b_face = mk_block ''face'' (block_labels ''face'') B_COMMAND
     [(''m'', menu_arg ''face'' s_register)]"
definition b_move :: blockInfo where
  "b_move = mk_block ''move'' (block_labels ''move'') B_COMMAND
     [(''m'', menu_arg ''move'' s_center)]"

text \<open>The menus of the three catalogs.\<close>

definition drone_menus :: "(string \<times> string list) list" where
  "drone_menus =
     [(''stage'', [s_standard, s_simulator]),
      (''pitch'', [s_forward, s_backward]),
      (''roll'', [s_right_move, s_left_move]),
      (''yaw'', [s_right_turn, s_left_turn]),
      (''gaz'', [s_up, s_down]),
      (''flip'', [s_front, s_back, s_right, s_left])]"

definition grab_menu :: "string \<times> string list" where
  "grab_menu = (''grab'', [s_open, s_close, s_open_close])"

section \<open>The three getInfo results\<close>

definition phantom4_getInfo :: extInfo where
  "phantom4_getInfo =
    \<lparr>ext_id = ''djiPhantom4Blocks'', ext_name = ''DJI Drone'',
     colour = ''#6dbfff'', colourSecondary = ''#3885c1'', colourTertiary = ''#007fe2'',
     blocks = [b_changeStage, b_reset, b_connected, b_gaz, b_pitch, b_roll, b_battery,
               b_takeoff, b_landing, b_stop, b_set_gaz, b_set_pitch, b_set_roll, b_set_yaw,
               b_cap, b_flip, b_light, b_grab, b_picture, b_shoot, b_pitch_roll_yaw_gaz],
     menus = drone_menus @ [grab_menu]\<rparr>"

definition tello_getInfo :: extInfo where
  "tello_getInfo =
    \<lparr>ext_id = ''djiTelloBlocks'', ext_name = ''DJI Tello'',
     colour = ''#42f4ad'', colourSecondary = ''#008e47'', colourTertiary = ''#2eaa6c'',
     blocks = [b_changeStage, b_reset, b_connected, b_gaz, b_pitch, b_roll, b_battery,
               b_takeoff, b_landing, b_stop, b_set_gaz, b_set_pitch, b_set_roll, b_set_yaw,
               b_cap, b_flip, b_light, b_searchColor, b_picture, b_face,
               b_pitch_roll_yaw_gaz, b_move],
     menus = drone_menus @ [(''face'', [s_register, s_search]), (''move'', [s_center])]\<rparr>"

definition mambo_getInfo :: extInfo where
  "mambo_getInfo =
    \<lparr>ext_id = ''parrotMamboBlocks'', ext_name = ''Parrot Drone'',
     colour = ''#A0A0A0'', colourSecondary = ''#505050'', colourTertiary = ''#202020'',
     blocks = [b_changeStage, b_reset, b_connected, b_gaz, b_pitch, b_roll, b_battery,
               b_takeoff, b_landing, b_stop, b_set_gaz, b_set_pitch, b_set_roll, b_set_yaw,
               b_cap, b_flip, b_light, b_grab, b_picture, b_shoot, b_pitch_roll_yaw_gaz],
     menus = drone_menus @ [grab_menu]\<rparr>"

lemmas block_defs = b_changeStage_def b_reset_def b_connected_def b_gaz_def b_pitch_def
  b_roll_def b_battery_def b_takeoff_def b_landing_def b_stop_def b_set_gaz_def
  b_set_pitch_def b_set_roll_def b_set_yaw_def b_cap_def b_flip_def b_light_def b_grab_def
  b_picture_def b_shoot_def b_pitch_roll_yaw_gaz_def b_searchColor_def b_face_def b_move_def

lemmas arg_defs = menu_arg_def num_arg_def bare_arg_def mk_block_def

definition opcodes :: "extInfo \<Rightarrow> string list" where
  "opcodes e = map opcode (blocks e)"

section \<open>Lemmas\<close>

text \<open>The opcode lists of the three catalogs, computed once.\<close>

lemma opcodes_phantom4:
  "opcodes phantom4_getInfo =
    [''changeStage'', ''reset'', ''connected'', ''gaz'', ''pitch'', ''roll'', ''battery'',
     ''takeoff'', ''landing'', ''stop'', ''set_gaz'', ''set_pitch'', ''set_roll'', ''set_yaw'',
     ''cap'', ''flip'', ''light'', ''grab'', ''picture'', ''shoot'', ''pitch_roll_yaw_gaz'']"
  by (simp add: opcodes_def phantom4_getInfo_def block_defs mk_block_def)

lemma opcodes_tello:
  "opcodes tello_getInfo =
    [''changeStage'', ''reset'', ''connected'', ''gaz'', ''pitch'', ''roll'', ''battery'',
     ''takeoff'', ''landing'', ''stop'', ''set_gaz'', ''set_pitch'', ''set_roll'', ''set_yaw'',
     ''cap'', ''flip'', ''light'', ''searchColor'', ''picture'', ''face'', ''pitch_roll_yaw_gaz'',
     ''move'']"
  by (simp add: opcodes_def tello_getInfo_def block_defs mk_block_def)

lemma opcodes_mambo:
  "opcodes mambo_getInfo =
    [''changeStage'', ''reset'', ''connected'', ''gaz'', ''pitch'', ''roll'', ''battery'',
     ''takeoff'', ''landing'', ''stop'', ''set_gaz'', ''set_pitch'', ''set_roll'', ''set_yaw'',
     ''cap'', ''flip'', ''light'', ''grab'', ''picture'', ''shoot'', ''pitch_roll_yaw_gaz'']"
  by (simp add: opcodes_def mambo_getInfo_def block_defs mk_block_def)


end
