(* ===== verification/Host.thy ===== *)
theory Host
  imports Catalog
begin

text \<open>
  The page the extensions run in.  Their handlers touch only global state of the
  hosting web page: the globals \<open>stageId\<close>, \<open>droneFlag\<close> and \<open>id\<close>, the DOM
  elements \<open>scratch_stage\<close> and \<open>gameContainer_drone\<close>, the page's global function
  \<open>changeStage(n)\<close>, and the Unity instances \<open>djiTelloInstance\<close> and
  \<open>gameInstance\<close> created by \<open>UnityLoader.instantiate\<close>, whose \<open>SendMessage\<close>
  is the only channel to the simulator.  None of these is defined in the repository:
  the page and the Unity loader are external, so the model records what the
  extensions ask of them (the arguments of \<open>changeStage\<close> and every
  \<open>SendMessage\<close>, in order) and nothing of what they do.

  The Scratch runtime calls a block's handler by its opcode with an \<open>args\<close> object;
  \<open>call\<close> is the datatype of these calls, one constructor per opcode of the
  three catalogs, with the arguments the block declares.
\<close>

section \<open>Values, errors and the page\<close>

datatype js_error = TypeError string

datatype js_result = Undefined | JBool bool | JNumber int

record elem =
  style_display :: string
  elem_height :: string
  elem_width :: string

record unityInstance =
  container :: string
  build_url :: string

record message =
  msg_instance :: unityInstance
  game_object :: string
  method_name :: string
  msg_value :: string

record page =
  document :: "string \<rightharpoonup> elem"
  stageId :: "int option"
  droneFlag :: "bool option"
  drone_id :: "string option"
  djiTelloInstance :: "unityInstance option"
  gameInstance :: "unityInstance option"
  stage_calls :: "int list"
  sent :: "message list"

section \<open>What the page provides\<close>

text \<open>The page's global \<open>changeStage(n)\<close>: its effect on the page is not in the
  repository; the call itself is recorded.\<close>

definition page_changeStage :: "int \<Rightarrow> page \<Rightarrow> page" where
  "page_changeStage n pg = pg\<lparr>stage_calls := stage_calls pg @ [n]\<rparr>"

definition unity_instantiate :: "string \<Rightarrow> string \<Rightarrow> unityInstance" where
  "unity_instantiate c url = \<lparr>container = c, build_url = url\<rparr>"

text \<open>\<open>inst.SendMessage(obj, meth, v)\<close>: a method call on a global that is still
  \<open>undefined\<close> throws a TypeError and changes nothing.\<close>

definition send_message ::
  "unityInstance option \<Rightarrow> string \<Rightarrow> string \<Rightarrow> string \<Rightarrow> page \<Rightarrow> page \<times> (js_error + unit)" where
  "send_message inst obj meth v pg =
    (case inst of
       None \<Rightarrow> (pg, Inl (TypeError ''Cannot read properties of undefined (reading SendMessage)''))
     | Some u \<Rightarrow> (pg\<lparr>sent := sent pg @ [\<lparr>msg_instance = u, game_object = obj,
                                         method_name = meth, msg_value = v\<rparr>]\<rparr>, Inr ()))"

text \<open>The TypeErrors of a property access on \<open>null\<close>: reading a property
  (\<open>null.style\<close>) and assigning one (\<open>null.height = v\<close>).\<close>

definition null_read :: "string \<Rightarrow> js_error" where
  "null_read p = TypeError (''Cannot read properties of null (reading '' @ [CHR 0x27] @ p @ [CHR 0x27] @ '')'')"

definition null_set :: "string \<Rightarrow> js_error" where
  "null_set p = TypeError (''Cannot set properties of null (setting '' @ [CHR 0x27] @ p @ [CHR 0x27] @ '')'')"

text \<open>An assignment through \<open>document.getElementById(id)\<close>: with no element of that
  id the access throws \<open>err\<close> (\<open>null_read ''style''\<close> for \<open>x.style.display = v\<close>,
  \<open>null_set p\<close> for \<open>x.p = v\<close>) and changes nothing.\<close>

definition set_elem :: "js_error \<Rightarrow> string \<Rightarrow> (elem \<Rightarrow> elem) \<Rightarrow> page \<Rightarrow> page \<times> (js_error + unit)" where
  "set_elem err i f pg =
    (case document pg i of
       None \<Rightarrow> (pg, Inl err)
     | Some e \<Rightarrow> (pg\<lparr>document := (document pg)(i \<mapsto> f e)\<rparr>, Inr ()))"

text \<open>A command handler returns \<open>undefined\<close> when it completes.\<close>

definition cmd_result :: "page \<times> (js_error + unit) \<Rightarrow> page \<times> (js_error + js_result)" where
  "cmd_result r = (fst r, map_sum id (\<lambda>_. Undefined) (snd r))"

section \<open>Calls of the runtime\<close>

datatype call =
    ChangeStage string | Reset | Connected bool | GetGaz | GetPitch | GetRoll | GetBattery
  | Takeoff | Landing | Stop
  | SetGaz string int | SetPitch string int | SetRoll string int | SetYaw string int
  | Cap string int | Flip string | Light int | Grab string | Picture | Shoot
  | SearchColor string | Face string
  | PitchRollYawGaz string int string int string int string int
  | Move string

fun call_opcode :: "call \<Rightarrow> string" where
  "call_opcode (ChangeStage _) = ''changeStage''"
| "call_opcode Reset = ''reset''"
| "call_opcode (Connected _) = ''connected''"
| "call_opcode GetGaz = ''gaz''"
| "call_opcode GetPitch = ''pitch''"
| "call_opcode GetRoll = ''roll''"
| "call_opcode GetBattery = ''battery''"
| "call_opcode Takeoff = ''takeoff''"
| "call_opcode Landing = ''landing''"
| "call_opcode Stop = ''stop''"
| "call_opcode (SetGaz _ _) = ''set_gaz''"
| "call_opcode (SetPitch _ _) = ''set_pitch''"
| "call_opcode (SetRoll _ _) = ''set_roll''"
| "call_opcode (SetYaw _ _) = ''set_yaw''"
| "call_opcode (Cap _ _) = ''cap''"
| "call_opcode (Flip _) = ''flip''"
| "call_opcode (Light _) = ''light''"
| "call_opcode (Grab _) = ''grab''"
| "call_opcode Picture = ''picture''"
| "call_opcode Shoot = ''shoot''"
| "call_opcode (SearchColor _) = ''searchColor''"
| "call_opcode (Face _) = ''face''"
| "call_opcode (PitchRollYawGaz _ _ _ _ _ _ _ _) = ''pitch_roll_yaw_gaz''"
| "call_opcode (Move _) = ''move''"

text \<open>The runtime looks the handler up by name: \<open>this[opcode](args)\<close> on a class
  without that method throws.\<close>

definition not_a_function :: "call \<Rightarrow> page \<Rightarrow> page \<times> (js_error + js_result)" where
  "not_a_function c pg = (pg, Inl (TypeError (call_opcode c @ '' is not a function'')))"

text \<open>A page as the host loads it: both stage elements present, the Scratch stage
  shown, every global the extensions assign still \<open>undefined\<close>, nothing sent.\<close>

definition blank_page :: page where
  "blank_page =
    \<lparr>document = [''scratch_stage'' \<mapsto> \<lparr>style_display = ''block'', elem_height = ''360'', elem_width = ''480''\<rparr>,
                  ''gameContainer_drone'' \<mapsto> \<lparr>style_display = ''none'', elem_height = [], elem_width = []\<rparr>],
     stageId = None, droneFlag = None, drone_id = None, djiTelloInstance = None,
     gameInstance = None, stage_calls = [], sent = []\<rparr>"

section \<open>Lemmas\<close>

named_theorems page_simps "effects of the page's functions"

lemma send_message_Some [page_simps]:
  "send_message (Some u) obj meth v pg =
     (pg\<lparr>sent := sent pg @ [\<lparr>msg_instance = u, game_object = obj, method_name = meth,
                               msg_value = v\<rparr>]\<rparr>, Inr ())"
  by (simp add: send_message_def)

lemma send_message_None [page_simps]:
  "\<exists>e. send_message None obj meth v pg = (pg, Inl e)"
  by (simp add: send_message_def)

lemma send_message_frame [page_simps]:
  "document (fst (send_message i obj meth v pg)) = document pg"
  "stageId (fst (send_message i obj meth v pg)) = stageId pg"
  "droneFlag (fst (send_message i obj meth v pg)) = droneFlag pg"
  "drone_id (fst (send_message i obj meth v pg)) = drone_id pg"
  "djiTelloInstance (fst (send_message i obj meth v pg)) = djiTelloInstance pg"
  "gameInstance (fst (send_message i obj meth v pg)) = gameInstance pg"
  "stage_calls (fst (send_message i obj meth v pg)) = stage_calls pg"
  by (simp_all add: send_message_def split: option.splits)

lemma set_elem_Some [page_simps]:
  "document pg i = Some e \<Longrightarrow>
   set_elem err i f pg = (pg\<lparr>document := (document pg)(i \<mapsto> f e)\<rparr>, Inr ())"
  by (simp add: set_elem_def)

lemma set_elem_None [page_simps]:
  "document pg i = None \<Longrightarrow>
   set_elem err i f pg = (pg, Inl err)"
  by (simp add: set_elem_def)

lemma set_elem_frame [page_simps]:
  "sent (fst (set_elem err i f pg)) = sent pg"
  "stageId (fst (set_elem err i f pg)) = stageId pg"
  "stage_calls (fst (set_elem err i f pg)) = stage_calls pg"
  "djiTelloInstance (fst (set_elem err i f pg)) = djiTelloInstance pg"
  "gameInstance (fst (set_elem err i f pg)) = gameInstance pg"
  "droneFlag (fst (set_elem err i f pg)) = droneFlag pg"
  "dom (document (fst (set_elem err i f pg))) = dom (document pg)"
  by (auto simp: set_elem_def split: option.splits)

lemma cmd_result_simps [page_simps]:
  "cmd_result (pg, Inr u) = (pg, Inr Undefined)"
  "cmd_result (pg, Inl e) = (pg, Inl e)"
  "fst (cmd_result r) = fst r"
  by (simp_all add: cmd_result_def)

lemma not_a_function_simps [page_simps]:
  "fst (not_a_function c pg) = pg" "\<exists>e. snd (not_a_function c pg) = Inl e"
  by (simp_all add: not_a_function_def)

lemma page_changeStage_simps [page_simps]:
  "stage_calls (page_changeStage n pg) = stage_calls pg @ [n]"
  "document (page_changeStage n pg) = document pg"
  "stageId (page_changeStage n pg) = stageId pg"
  "sent (page_changeStage n pg) = sent pg"
  "droneFlag (page_changeStage n pg) = droneFlag pg"
  "drone_id (page_changeStage n pg) = drone_id pg"
  "djiTelloInstance (page_changeStage n pg) = djiTelloInstance pg"
  "gameInstance (page_changeStage n pg) = gameInstance pg"
  by (simp_all add: page_changeStage_def)

text \<open>The errors the page's operations throw, by their messages.\<close>

lemma send_message_Inl:
  "(snd (send_message i a b v pg) = Inl (TypeError s)) =
   (i = None \<and> s = ''Cannot read properties of undefined (reading SendMessage)'')"
  by (auto simp add: send_message_def split: option.splits)

lemma cmd_result_Inl: "(snd (cmd_result r) = Inl e) = (snd r = Inl e)"
  by (cases "snd r") (simp_all add: cmd_result_def)

end
