(* ===== verification/Protocol.thy ===== *)
theory Protocol
  imports Host
begin

text \<open>
  The command protocol between the extensions and the Unity simulator.  The Tello and
  Mambo handlers build a comma-separated value string \<open>"0,<code>[,0][,<value>]"\<close> and
  hand it to \<open>SendMessage("Drones", "Scratch3", value)\<close>.  This theory holds
  \<^item> the two lookup tables the handlers share, \<open>flip_code\<close> and \<open>grab_code\<close> (the
    \<open>switch\<close> statements of \<open>flip\<close> and \<open>grab\<close>);
  \<^item> the abstract commands \<open>sim_cmd\<close>, their wire format \<open>encode_cmd\<close> (the format
    the handlers write) and a decoder \<open>decode_cmd\<close> for the simulator's side, which is
    not in the repository and is given here as the specification of what the format
    must allow: every command is recovered from its message;
  \<^item> \<open>spec_cmd\<close>, the command a block call is meant to send: the signed speed of a
    velocity block, clamped to its limit.
  \<^item> \<open>cmd_in_range\<close>, the values the blocks are meant for, and \<open>call_for\<close>, a
    block call meant to send a given command in range.
\<close>

section \<open>Lookup tables of the handlers\<close>

text \<open>\<open>switch (args.m)\<close> in \<open>flip\<close>: front 1, back 2, right 4, left 8, else 0.\<close>

definition flip_code :: "string \<Rightarrow> int" where
  "flip_code m =
    (if m = s_front then 1 else if m = s_back then 2 else if m = s_right then 4
     else if m = s_left then 8 else 0)"

text \<open>\<open>switch (args.m)\<close> in \<open>grab\<close>: close 1, open 2, open-close 3, else 0.\<close>

definition grab_code :: "string \<Rightarrow> int" where
  "grab_code m = (if m = s_close then 1 else if m = s_open then 2 else if m = s_open_close then 3 else 0)"

section \<open>Abstract commands and their wire format\<close>

datatype axis = AxRoll | AxPitch | AxGaz | AxYaw

datatype sim_cmd = CmdStop | CmdReset | CmdTakeOff | CmdLanding | CmdShoot | CmdPicture
  | CmdAxis axis int | CmdFourAxis int int int int | CmdCap int | CmdFlip int | CmdLight int
  | CmdGrab int

fun axis_code :: "axis \<Rightarrow> string" where
  "axis_code AxRoll = ''100''"
| "axis_code AxPitch = ''110''"
| "axis_code AxGaz = ''120''"
| "axis_code AxYaw = ''130''"

fun cmd_fields :: "sim_cmd \<Rightarrow> string list" where
  "cmd_fields CmdStop = [''0'', ''2'']"
| "cmd_fields CmdReset = [''0'', ''3'']"
| "cmd_fields CmdTakeOff = [''0'', ''4'']"
| "cmd_fields CmdLanding = [''0'', ''5'']"
| "cmd_fields CmdShoot = [''0'', ''6'']"
| "cmd_fields CmdPicture = [''0'', ''7'']"
| "cmd_fields (CmdAxis ax v) = [''0'', axis_code ax, ''0'', js_num_str v]"
| "cmd_fields (CmdFourAxis r p g y) =
     [''0'', ''140'', ''0'', join_with CHR '':'' (map js_num_str [r, p, g, y])]"
| "cmd_fields (CmdCap v) = [''0'', ''200'', ''0'', js_num_str v]"
| "cmd_fields (CmdFlip a) = [''0'', ''210'', js_num_str a]"
| "cmd_fields (CmdLight v) = [''0'', ''220'', ''0'', js_num_str v]"
| "cmd_fields (CmdGrab a) = [''0'', ''230'', js_num_str a]"

definition encode_cmd :: "sim_cmd \<Rightarrow> string" where
  "encode_cmd c = join_with CHR '','' (cmd_fields c)"

definition axis_of_code :: "string \<Rightarrow> axis option" where
  "axis_of_code c =
    (if c = ''100'' then Some AxRoll else if c = ''110'' then Some AxPitch
     else if c = ''120'' then Some AxGaz else if c = ''130'' then Some AxYaw else None)"

fun decode_four :: "string list \<Rightarrow> sim_cmd option" where
  "decode_four [a, b, c, d] =
     (case (parse_int a, parse_int b, parse_int c, parse_int d) of
        (Some r, Some p, Some g, Some y) \<Rightarrow> Some (CmdFourAxis r p g y)
      | _ \<Rightarrow> None)"
| "decode_four _ = None"

fun decode_fields :: "string list \<Rightarrow> sim_cmd option" where
  "decode_fields [d, c] =
     (if d \<noteq> ''0'' then None
      else if c = ''2'' then Some CmdStop else if c = ''3'' then Some CmdReset
      else if c = ''4'' then Some CmdTakeOff else if c = ''5'' then Some CmdLanding
      else if c = ''6'' then Some CmdShoot else if c = ''7'' then Some CmdPicture else None)"
| "decode_fields [d, c, a] =
     (if d \<noteq> ''0'' then None
      else if c = ''210'' then map_option CmdFlip (parse_int a)
      else if c = ''230'' then map_option CmdGrab (parse_int a) else None)"
| "decode_fields [d, c, z, v] =
     (if d \<noteq> ''0'' \<or> z \<noteq> ''0'' then None
      else if c = ''140'' then decode_four (split_on CHR '':'' v)
      else if c = ''200'' then map_option CmdCap (parse_int v)
      else if c = ''220'' then map_option CmdLight (parse_int v)
      else (case axis_of_code c of
              Some ax \<Rightarrow> map_option (CmdAxis ax) (parse_int v)
            | None \<Rightarrow> None))"
| "decode_fields _ = None"

definition decode_cmd :: "string \<Rightarrow> sim_cmd option" where
  "decode_cmd s = decode_fields (split_on CHR '','' s)"

section \<open>What a block call is meant to send\<close>

text \<open>The speed of a velocity block: the number, at most \<open>lim\<close>, negated for the
  direction \<open>neg\<close> of the block's menu.\<close>

definition velocity :: "string \<Rightarrow> int \<Rightarrow> string \<Rightarrow> int \<Rightarrow> int" where
  "velocity neg lim m n = (if m = neg then - min n lim else min n lim)"

fun spec_cmd :: "call \<Rightarrow> sim_cmd option" where
  "spec_cmd Reset = Some CmdReset"
| "spec_cmd Takeoff = Some CmdTakeOff"
| "spec_cmd Landing = Some CmdLanding"
| "spec_cmd Stop = Some CmdStop"
| "spec_cmd (SetGaz m n) = Some (CmdAxis AxGaz (velocity s_down 100 m n))"
| "spec_cmd (SetPitch m n) = Some (CmdAxis AxPitch (velocity s_backward 100 m n))"
| "spec_cmd (SetRoll m n) = Some (CmdAxis AxRoll (velocity s_left_move 100 m n))"
| "spec_cmd (SetYaw m n) = Some (CmdAxis AxYaw (velocity s_left_turn 100 m n))"
| "spec_cmd (Cap m n) = Some (CmdCap (velocity s_left_turn 360 m n))"
| "spec_cmd (Flip m) = Some (CmdFlip (flip_code m))"
| "spec_cmd (Light n) = Some (CmdLight (255 * n))"
| "spec_cmd (Grab m) = Some (CmdGrab (grab_code m))"
| "spec_cmd Picture = Some CmdPicture"
| "spec_cmd Shoot = Some CmdShoot"
| "spec_cmd (PitchRollYawGaz m n o' p q r s t) =
     Some (CmdFourAxis (velocity s_left_move 100 o' p) (velocity s_backward 100 m n)
                       (velocity s_down 100 s t) (velocity s_left_turn 100 q r))"
| "spec_cmd _ = None"

text \<open>The commands the WebGL simulator implements: all but shoot and picture, whose
  handlers carry the comment that the WebGL side has not implemented them.\<close>

fun webgl_implements :: "sim_cmd \<Rightarrow> bool" where
  "webgl_implements CmdShoot = False"
| "webgl_implements CmdPicture = False"
| "webgl_implements _ = True"

text \<open>The message a Unity instance receives for a command.\<close>

definition drone_msg :: "unityInstance \<Rightarrow> sim_cmd \<Rightarrow> message" where
  "drone_msg u c = \<lparr>msg_instance = u, game_object = ''Drones'', method_name = ''Scratch3'',
                    msg_value = encode_cmd c\<rparr>"

text \<open>The simulator's view of a message log: the decoded command of every message.\<close>

definition cmd_log :: "message list \<Rightarrow> sim_cmd option list" where
  "cmd_log ms = map (decode_cmd \<circ> msg_value) ms"

text \<open>The commands a call adds to that view, per \<open>spec_cmd\<close>.\<close>

definition spec_log :: "call \<Rightarrow> sim_cmd option list" where
  "spec_log c = (case spec_cmd c of None \<Rightarrow> [] | Some cmd \<Rightarrow> [Some cmd])"

section \<open>Commands in range and the calls that send them\<close>

text \<open>The commands whose values lie in the ranges the blocks are meant for: speeds in
  [-100, 100], headings in [-360, 360], the four flip codes, light off or on, the three
  grab codes.  \<open>call_for\<close> is a block call meant to send a given command: the
  direction item from the value's sign, the magnitude as the speed.\<close>

fun cmd_in_range :: "sim_cmd \<Rightarrow> bool" where
  "cmd_in_range (CmdAxis ax v) = (\<bar>v\<bar> \<le> 100)"
| "cmd_in_range (CmdFourAxis r p g y) = (\<bar>r\<bar> \<le> 100 \<and> \<bar>p\<bar> \<le> 100 \<and> \<bar>g\<bar> \<le> 100 \<and> \<bar>y\<bar> \<le> 100)"
| "cmd_in_range (CmdCap v) = (\<bar>v\<bar> \<le> 360)"
| "cmd_in_range (CmdFlip v) = (v \<in> {1, 2, 4, 8})"
| "cmd_in_range (CmdLight v) = (v \<in> {0, 255})"
| "cmd_in_range (CmdGrab v) = (v \<in> {1, 2, 3})"
| "cmd_in_range _ = True"

definition dir_arg :: "string \<Rightarrow> string \<Rightarrow> int \<Rightarrow> string" where
  "dir_arg pos neg v = (if v < 0 then neg else pos)"

fun axis_call :: "axis \<Rightarrow> string \<Rightarrow> int \<Rightarrow> call" where
  "axis_call AxGaz = SetGaz"
| "axis_call AxPitch = SetPitch"
| "axis_call AxRoll = SetRoll"
| "axis_call AxYaw = SetYaw"

fun axis_dirs :: "axis \<Rightarrow> string \<times> string" where
  "axis_dirs AxGaz = (s_up, s_down)"
| "axis_dirs AxPitch = (s_forward, s_backward)"
| "axis_dirs AxRoll = (s_right_move, s_left_move)"
| "axis_dirs AxYaw = (s_right_turn, s_left_turn)"

fun call_for :: "sim_cmd \<Rightarrow> call" where
  "call_for CmdStop = Stop"
| "call_for CmdReset = Reset"
| "call_for CmdTakeOff = Takeoff"
| "call_for CmdLanding = Landing"
| "call_for CmdShoot = Shoot"
| "call_for CmdPicture = Picture"
| "call_for (CmdAxis ax v) = axis_call ax (dir_arg (fst (axis_dirs ax)) (snd (axis_dirs ax)) v) \<bar>v\<bar>"
| "call_for (CmdFourAxis r p g y) =
     PitchRollYawGaz (dir_arg s_forward s_backward p) \<bar>p\<bar> (dir_arg s_right_move s_left_move r) \<bar>r\<bar>
                     (dir_arg s_right_turn s_left_turn y) \<bar>y\<bar> (dir_arg s_up s_down g) \<bar>g\<bar>"
| "call_for (CmdCap v) = Cap (dir_arg s_right_turn s_left_turn v) \<bar>v\<bar>"
| "call_for (CmdFlip v) = Flip (if v = 1 then s_front else if v = 2 then s_back else if v = 4 then s_right else s_left)"
| "call_for (CmdLight v) = Light (v div 255)"
| "call_for (CmdGrab v) = Grab (if v = 1 then s_close else if v = 2 then s_open else s_open_close)"

section \<open>Lemmas\<close>

named_theorems cmd_simps "the handlers' expressions in terms of the protocol"

lemma velocity_js [cmd_simps]: "js_sign neg m * js_clamp_hi lim n = velocity neg lim m n"
  by (simp add: js_sign_def js_clamp_hi_def velocity_def)

lemma comma_notin_join_colon:
  "\<forall>w\<in>set ws. CHR '','' \<notin> set w \<Longrightarrow> CHR '','' \<notin> set (join_with CHR '':'' ws)"
  by (induction "CHR '':''" ws rule: join_with.induct) auto

lemma comma_notin_axis_code: "CHR '','' \<notin> set (axis_code ax)"
  by (cases ax) simp_all

lemma cmd_fields_ok: "cmd_fields c \<noteq> [] \<and> (\<forall>w\<in>set (cmd_fields c). CHR '','' \<notin> set w)"
  by (cases c) (simp_all add: sep_notin_js_num_str comma_notin_join_colon comma_notin_axis_code)

lemma split_encode_cmd: "split_on CHR '','' (encode_cmd c) = cmd_fields c"
  using cmd_fields_ok [of c] by (simp add: encode_cmd_def split_on_join_with)

lemma axis_of_code_axis_code: "axis_of_code (axis_code ax) = Some ax"
  by (cases ax) (simp_all add: axis_of_code_def)

lemma axis_code_neq [simp]:
  "axis_code ax \<noteq> ''140''" "axis_code ax \<noteq> ''200''" "axis_code ax \<noteq> ''220''"
  by (cases ax; simp)+

lemma decode_fields_cmd_fields: "decode_fields (cmd_fields c) = Some c"
proof (cases c)
  case (CmdFourAxis r p g y)
  have "split_on CHR '':'' (join_with CHR '':'' (map js_num_str [r, p, g, y])) =
        map js_num_str [r, p, g, y]"
    by (rule split_on_join_with) (simp_all add: sep_notin_js_num_str)
  with CmdFourAxis show ?thesis by (simp add: parse_int_js_num_str)
qed (simp_all add: parse_int_js_num_str axis_of_code_axis_code)

lemma encode_cmd_CmdAxis [cmd_simps]:
  "encode_cmd (CmdAxis ax v) = ''0,'' @ axis_code ax @ '',0,'' @ js_num_str v"
  by (simp add: encode_cmd_def)

lemma encode_cmd_simps [cmd_simps]:
  "encode_cmd CmdStop = ''0,2''" "encode_cmd CmdReset = ''0,3''"
  "encode_cmd CmdTakeOff = ''0,4''" "encode_cmd CmdLanding = ''0,5''"
  "encode_cmd CmdShoot = ''0,6''" "encode_cmd CmdPicture = ''0,7''"
  "encode_cmd (CmdCap v) = ''0,200,0,'' @ js_num_str v"
  "encode_cmd (CmdFlip a) = ''0,210,'' @ js_num_str a"
  "encode_cmd (CmdLight v) = ''0,220,0,'' @ js_num_str v"
  "encode_cmd (CmdGrab a) = ''0,230,'' @ js_num_str a"
  "encode_cmd (CmdFourAxis r p g y) =
     ''0,140,0,'' @ js_num_str r @ '':'' @ js_num_str p @ '':'' @ js_num_str g @ '':'' @ js_num_str y"
  by (simp_all add: encode_cmd_def)

text \<open>The wire format is unambiguous: the decoder recovers every command from the
  value string its encoding produces, whatever its numbers.\<close>

lemma decode_encode_cmd: "decode_cmd (encode_cmd c) = Some c"
  by (simp add: decode_cmd_def split_encode_cmd decode_fields_cmd_fields)

lemma cmd_log_append_drone_msg [cmd_simps]:
  "cmd_log (ms @ [drone_msg u cmd]) = cmd_log ms @ [Some cmd]"
  by (simp add: cmd_log_def drone_msg_def decode_encode_cmd)

text \<open>Every command in range is what its \<open>call_for\<close> is meant to send.\<close>

lemma velocity_dir_arg:
  "pos \<noteq> neg \<Longrightarrow> \<bar>v\<bar> \<le> lim \<Longrightarrow> velocity neg lim (dir_arg pos neg v) \<bar>v\<bar> = v"
  by (simp add: velocity_def dir_arg_def)

lemma menu_items_distinct:
  "s_up \<noteq> s_down" "s_forward \<noteq> s_backward" "s_right_move \<noteq> s_left_move"
  "s_right_turn \<noteq> s_left_turn"
  by (simp_all add: menu_item_defs lit_simps)

lemma spec_cmd_call_for:
  assumes "cmd_in_range cmd"
  shows "spec_cmd (call_for cmd) = Some cmd"
proof (cases cmd)
  case (CmdAxis ax v)
  with assms show ?thesis
    by (cases ax) (simp_all add: velocity_dir_arg menu_items_distinct)
next
  case (CmdFlip v)
  with assms show ?thesis by (auto simp: flip_code_def menu_item_defs lit_simps)
next
  case (CmdGrab v)
  with assms show ?thesis by (auto simp: grab_code_def menu_item_defs lit_simps)
qed (use assms in \<open>auto simp: velocity_dir_arg menu_items_distinct\<close>)

text \<open>Every command a call other than \<open>picture\<close> and \<open>shoot\<close> is meant to send is
  implemented by the simulator.\<close>

lemma spec_cmd_implemented:
  "spec_cmd c = Some cmd \<Longrightarrow> c \<noteq> Picture \<Longrightarrow> c \<noteq> Shoot \<Longrightarrow> webgl_implements cmd"
  by (cases c) auto

end
