(* ===== verification/Phantom4.thy ===== *)
theory Phantom4
  imports Protocol
begin

text \<open>
  \<open>src/src/extensions/scratch3_dji_phantom4/index.js\<close>, class \<open>DjiPhantom4Blocks\<close>:
  the constructor, one definition per handler method in the order of the class, and
  \<open>phantom4_call\<close>, the runtime's dispatch.  In this class every
  \<open>unityInstance.SendMessage\<close> line is commented out: the command handlers compute
  their local values and return.  The one handler with an effect is \<open>changeStage\<close>,
  which shows either the Scratch stage or the drone container and sets the global
  \<open>droneFlag\<close>.  The lemmas show that no call sends anything, what \<open>changeStage\<close>
  does to the page, and what it leaves behind when an element is missing.
\<close>

section \<open>Constructor and handlers\<close>

text \<open>\<open>this.runtime = runtime; id = "0";\<close>\<close>

definition phantom4_new :: "page \<Rightarrow> page" where
  "phantom4_new pg = pg\<lparr>drone_id := Some ''0''\<rparr>"

text \<open>Two independent \<open>if\<close>s on \<open>args.m\<close>, each a sequence of property assignments
  on the two elements looked up at the start; an assignment through a missing element
  throws, keeping the assignments made before it.\<close>

definition phantom4_changeStage :: "string \<Rightarrow> page \<Rightarrow> page \<times> (js_error + unit)" where
  "phantom4_changeStage m pg =
    js_then
      (\<lambda>pg. if m = s_standard then
          js_then (set_elem (null_read ''style'') ''scratch_stage'' (style_display_update (\<lambda>_. ''block'')))
           (js_then (set_elem (null_read ''style'') ''gameContainer_drone'' (style_display_update (\<lambda>_. ''none'')))
            (js_then (set_elem (null_set ''height'') ''scratch_stage'' (elem_height_update (\<lambda>_. ''360'')))
             (js_then (set_elem (null_set ''width'') ''scratch_stage'' (elem_width_update (\<lambda>_. ''480'')))
              (\<lambda>pg. (pg\<lparr>droneFlag := Some False\<rparr>, Inr ()))))) pg
        else (pg, Inr ()))
      (\<lambda>pg. if m = s_simulator then
          js_then (set_elem (null_read ''style'') ''scratch_stage'' (style_display_update (\<lambda>_. ''none'')))
           (js_then (set_elem (null_read ''style'') ''gameContainer_drone'' (style_display_update (\<lambda>_. ''block'')))
            (\<lambda>pg. (pg\<lparr>droneFlag := Some True\<rparr>, Inr ()))) pg
        else (pg, Inr ()))
      pg"

text \<open>The handlers whose \<open>SendMessage\<close> is commented out.\<close>

definition phantom4_reset :: "page \<Rightarrow> page \<times> (js_error + unit)" where
  "phantom4_reset pg = (pg, Inr ())"

definition phantom4_takeoff :: "page \<Rightarrow> page \<times> (js_error + unit)" where
  "phantom4_takeoff pg = (pg, Inr ())"

definition phantom4_landing :: "page \<Rightarrow> page \<times> (js_error + unit)" where
  "phantom4_landing pg = (pg, Inr ())"

definition phantom4_stop :: "page \<Rightarrow> page \<times> (js_error + unit)" where
  "phantom4_stop pg = (pg, Inr ())"

definition phantom4_set_gaz :: "string \<Rightarrow> int \<Rightarrow> page \<Rightarrow> page \<times> (js_error + unit)" where
  "phantom4_set_gaz m n pg = (let a = js_sign s_down m; tmp = js_clamp_hi 100 n in (pg, Inr ()))"

definition phantom4_set_pitch :: "string \<Rightarrow> int \<Rightarrow> page \<Rightarrow> page \<times> (js_error + unit)" where
  "phantom4_set_pitch m n pg =
    (let a = js_sign s_backward m; tmp = js_clamp_hi 100 n in (pg, Inr ()))"

definition phantom4_set_roll :: "string \<Rightarrow> int \<Rightarrow> page \<Rightarrow> page \<times> (js_error + unit)" where
  "phantom4_set_roll m n pg =
    (let a = js_sign s_left_move m; tmp = js_clamp_hi 100 n in (pg, Inr ()))"

definition phantom4_set_yaw :: "string \<Rightarrow> int \<Rightarrow> page \<Rightarrow> page \<times> (js_error + unit)" where
  "phantom4_set_yaw m n pg =
    (let a = js_sign s_left_turn m; tmp = js_clamp_hi 100 n in (pg, Inr ()))"

definition phantom4_cap :: "string \<Rightarrow> int \<Rightarrow> page \<Rightarrow> page \<times> (js_error + unit)" where
  "phantom4_cap m n pg =
    (let a = js_sign s_left_turn m; tmp = js_clamp_hi 360 n in (pg, Inr ()))"

definition phantom4_flip :: "string \<Rightarrow> page \<Rightarrow> page \<times> (js_error + unit)" where
  "phantom4_flip m pg = (let a = flip_code m in (pg, Inr ()))"

definition phantom4_light :: "int \<Rightarrow> page \<Rightarrow> page \<times> (js_error + unit)" where
  "phantom4_light n pg = (pg, Inr ())"

definition phantom4_grab :: "string \<Rightarrow> page \<Rightarrow> page \<times> (js_error + unit)" where
  "phantom4_grab m pg = (let a = grab_code m in (pg, Inr ()))"

definition phantom4_picture :: "page \<Rightarrow> page \<times> (js_error + unit)" where
  "phantom4_picture pg = (pg, Inr ())"

definition phantom4_shoot :: "page \<Rightarrow> page \<times> (js_error + unit)" where
  "phantom4_shoot pg = (pg, Inr ())"

definition phantom4_pitch_roll_yaw_gaz ::
  "string \<Rightarrow> int \<Rightarrow> string \<Rightarrow> int \<Rightarrow> string \<Rightarrow> int \<Rightarrow> string \<Rightarrow> int \<Rightarrow> page \<Rightarrow>
   page \<times> (js_error + unit)" where
  "phantom4_pitch_roll_yaw_gaz m n o' p q r s t pg =
    (let sp = js_sign s_backward m; sr = js_sign s_left_move o';
         sy = js_sign s_left_turn q; sg = js_sign s_down s;
         tmp_p = js_clamp_hi 100 n; tmp_r = js_clamp_hi 100 p;
         tmp_y = js_clamp_hi 100 r; tmp_g = js_clamp_hi 100 t;
         str = js_num_str (sr * tmp_r) @ '':'' @ js_num_str (sp * tmp_p) @ '':'' @
               js_num_str (sg * tmp_g) @ '':'' @ js_num_str (sy * tmp_y)
     in (pg, Inr ()))"

section \<open>Dispatch by opcode\<close>

fun phantom4_call :: "call \<Rightarrow> page \<Rightarrow> page \<times> (js_error + js_result)" where
  "phantom4_call (ChangeStage m) pg = cmd_result (phantom4_changeStage m pg)"
| "phantom4_call Reset pg = cmd_result (phantom4_reset pg)"
| "phantom4_call (Connected _) pg = (pg, Inr (JBool False))"
| "phantom4_call GetGaz pg = (pg, Inr (JNumber 0))"
| "phantom4_call GetPitch pg = (pg, Inr (JNumber 0))"
| "phantom4_call GetRoll pg = (pg, Inr (JNumber 0))"
| "phantom4_call GetBattery pg = (pg, Inr (JNumber 0))"
| "phantom4_call Takeoff pg = cmd_result (phantom4_takeoff pg)"
| "phantom4_call Landing pg = cmd_result (phantom4_landing pg)"
| "phantom4_call Stop pg = cmd_result (phantom4_stop pg)"
| "phantom4_call (SetGaz m n) pg = cmd_result (phantom4_set_gaz m n pg)"
| "phantom4_call (SetPitch m n) pg = cmd_result (phantom4_set_pitch m n pg)"
| "phantom4_call (SetRoll m n) pg = cmd_result (phantom4_set_roll m n pg)"
| "phantom4_call (SetYaw m n) pg = cmd_result (phantom4_set_yaw m n pg)"
| "phantom4_call (Cap m n) pg = cmd_result (phantom4_cap m n pg)"
| "phantom4_call (Flip m) pg = cmd_result (phantom4_flip m pg)"
| "phantom4_call (Light n) pg = cmd_result (phantom4_light n pg)"
| "phantom4_call (Grab m) pg = cmd_result (phantom4_grab m pg)"
| "phantom4_call Picture pg = cmd_result (phantom4_picture pg)"
| "phantom4_call Shoot pg = cmd_result (phantom4_shoot pg)"
| "phantom4_call (PitchRollYawGaz m n o' p q r s t) pg =
     cmd_result (phantom4_pitch_roll_yaw_gaz m n o' p q r s t pg)"
| "phantom4_call (SearchColor x) pg = not_a_function (SearchColor x) pg"
| "phantom4_call (Face x) pg = not_a_function (Face x) pg"
| "phantom4_call (Move x) pg = not_a_function (Move x) pg"

lemmas phantom4_handler_defs = phantom4_reset_def phantom4_takeoff_def phantom4_landing_def
  phantom4_stop_def phantom4_set_gaz_def phantom4_set_pitch_def phantom4_set_roll_def
  phantom4_set_yaw_def phantom4_cap_def phantom4_flip_def phantom4_light_def phantom4_grab_def
  phantom4_picture_def phantom4_shoot_def phantom4_pitch_roll_yaw_gaz_def

text \<open>What \<open>droneFlag\<close> is meant to tell: \<open>true\<close> when the drone container is
  shown and the Scratch stage hidden, \<open>false\<close> the other way round, and
  \<open>undefined\<close> before any switch.\<close>

definition flag_shows :: "bool option \<Rightarrow> (string \<rightharpoonup> elem) \<Rightarrow> bool" where
  "flag_shows f d =
    (case f of
       None \<Rightarrow> True
     | Some b \<Rightarrow> map_option style_display (d ''scratch_stage'') = Some (if b then ''none'' else ''block'') \<and>
                 map_option style_display (d ''gameContainer_drone'') = Some (if b then ''block'' else ''none''))"

section \<open>Lemmas\<close>

lemma phantom4_changeStage_frame [page_simps]:
  "sent (fst (phantom4_changeStage m pg)) = sent pg"
  "stageId (fst (phantom4_changeStage m pg)) = stageId pg"
  "stage_calls (fst (phantom4_changeStage m pg)) = stage_calls pg"
  "djiTelloInstance (fst (phantom4_changeStage m pg)) = djiTelloInstance pg"
  "gameInstance (fst (phantom4_changeStage m pg)) = gameInstance pg"
  "dom (document (fst (phantom4_changeStage m pg))) = dom (document pg)"
  by (auto simp: phantom4_changeStage_def js_then_def set_elem_def
           split: option.splits prod.splits sum.splits)

text \<open>What a call leaves alone: everything but the two elements, \<open>droneFlag\<close>
  and \<open>id\<close>; and the elements of the page stay the same.\<close>

lemma phantom4_call_frame [page_simps]:
  "sent (fst (phantom4_call c pg)) = sent pg"
  "stageId (fst (phantom4_call c pg)) = stageId pg"
  "stage_calls (fst (phantom4_call c pg)) = stage_calls pg"
  "djiTelloInstance (fst (phantom4_call c pg)) = djiTelloInstance pg"
  "gameInstance (fst (phantom4_call c pg)) = gameInstance pg"
  "dom (document (fst (phantom4_call c pg))) = dom (document pg)"
  by (cases c; simp add: phantom4_handler_defs page_simps Let_def)+

lemma phantom4_new_simps [page_simps]:
  "stageId (phantom4_new pg) = stageId pg" "stage_calls (phantom4_new pg) = stage_calls pg"
  "sent (phantom4_new pg) = sent pg" "document (phantom4_new pg) = document pg"
  "djiTelloInstance (phantom4_new pg) = djiTelloInstance pg"
  "gameInstance (phantom4_new pg) = gameInstance pg"
  by (simp_all add: phantom4_new_def)

text \<open>\<open>changeStage\<close> completes or throws the DOM's null-property error.\<close>

lemma phantom4_changeStage_result:
  "snd (phantom4_changeStage m pg) = Inr () \<or>
   snd (phantom4_changeStage m pg) = Inl (null_read ''style'')"
  by (simp add: phantom4_changeStage_def js_then_def set_elem_def
           split: option.splits prod.splits sum.splits)

text \<open>With both elements on the page, a call keeps \<open>droneFlag\<close> true to the page.\<close>

lemma phantom4_changeStage_flag_shows:
  assumes "document p ''scratch_stage'' = Some e1" and "document p ''gameContainer_drone'' = Some e2"
    and "flag_shows (droneFlag p) (document p)"
  shows "flag_shows (droneFlag (fst (phantom4_changeStage m p))) (document (fst (phantom4_changeStage m p)))"
proof -
  have ne: "s_standard \<noteq> s_simulator" by (simp add: menu_item_defs lit_simps)
  show ?thesis
    using assms ne
    by (cases "m = s_standard"; cases "m = s_simulator")
       (simp_all add: phantom4_changeStage_def js_then_def set_elem_def flag_shows_def)
qed

lemma phantom4_call_flag_shows:
  assumes "document p ''scratch_stage'' = Some e1" and "document p ''gameContainer_drone'' = Some e2"
    and "flag_shows (droneFlag p) (document p)"
  shows "flag_shows (droneFlag (fst (phantom4_call c p))) (document (fst (phantom4_call c p)))"
proof (cases c)
  case (ChangeStage m)
  then show ?thesis using phantom4_changeStage_flag_shows [OF assms] by (simp add: page_simps)
qed (use assms(3) in \<open>simp_all add: phantom4_handler_defs Let_def page_simps\<close>)

text \<open>The footprint of a call: it writes only \<open>document\<close> and \<open>droneFlag\<close>, and
  what it does does not depend on the message log or the stage globals.\<close>

lemma phantom4_changeStage_confined:
  "fst (phantom4_changeStage m pg) =
     pg\<lparr>document := document (fst (phantom4_changeStage m pg)),
        droneFlag := droneFlag (fst (phantom4_changeStage m pg))\<rparr>"
  by (simp add: phantom4_changeStage_def js_then_def set_elem_def split: option.splits prod.splits sum.splits)

lemma phantom4_changeStage_indep:
  "phantom4_changeStage m (pg\<lparr>stageId := i, stage_calls := sc, sent := ms\<rparr>) =
     ((fst (phantom4_changeStage m pg))\<lparr>stageId := i, stage_calls := sc, sent := ms\<rparr>,
      snd (phantom4_changeStage m pg))"
  by (simp add: phantom4_changeStage_def js_then_def set_elem_def split: option.splits prod.splits sum.splits)

lemma phantom4_call_confined:
  "fst (phantom4_call c pg) =
     pg\<lparr>document := document (fst (phantom4_call c pg)), droneFlag := droneFlag (fst (phantom4_call c pg))\<rparr>"
proof (cases c)
  case (ChangeStage m)
  then show ?thesis using phantom4_changeStage_confined [of m pg] by (simp add: cmd_result_def)
qed (simp_all add: phantom4_handler_defs Let_def cmd_result_def not_a_function_def)

lemma phantom4_call_indep:
  "phantom4_call c (pg\<lparr>stageId := i, stage_calls := sc, sent := ms\<rparr>) =
     ((fst (phantom4_call c pg))\<lparr>stageId := i, stage_calls := sc, sent := ms\<rparr>, snd (phantom4_call c pg))"
proof (cases c)
  case (ChangeStage m)
  then show ?thesis using phantom4_changeStage_indep by (simp add: cmd_result_def)
qed (simp_all add: phantom4_handler_defs Let_def cmd_result_def not_a_function_def)

text \<open>C3: the Phantom 4 extension never talks to the simulator: no call, whatever its
  arguments and whatever the page, adds a message.\<close>

theorem phantom4_never_sends: "sent (fst (phantom4_call c pg)) = sent pg"
  by (cases c) (simp_all add: phantom4_handler_defs page_simps Let_def)

text \<open>C4: with both elements on the page, \<open>changeStage\<close> with "Simulator" hides
  the Scratch stage, shows the drone container and sets \<open>droneFlag\<close>; with the
  standard stage it shows the Scratch stage at 480x360, hides the container and clears
  \<open>droneFlag\<close>; neither throws.\<close>

theorem phantom4_changeStage_shows:
  assumes "document pg ''scratch_stage'' = Some e1"
    and "document pg ''gameContainer_drone'' = Some e2"
  shows "phantom4_changeStage s_simulator pg =
           (pg\<lparr>document := (document pg)(''scratch_stage'' \<mapsto> e1\<lparr>style_display := ''none''\<rparr>,
               ''gameContainer_drone'' \<mapsto> e2\<lparr>style_display := ''block''\<rparr>),
               droneFlag := Some True\<rparr>, Inr ()) \<and>
         phantom4_changeStage s_standard pg =
           (pg\<lparr>document := (document pg)(''scratch_stage'' \<mapsto>
                 e1\<lparr>style_display := ''block'', elem_height := ''360'', elem_width := ''480''\<rparr>,
               ''gameContainer_drone'' \<mapsto> e2\<lparr>style_display := ''none''\<rparr>),
               droneFlag := Some False\<rparr>, Inr ())"
  using assms
  by (simp add: phantom4_changeStage_def js_then_def set_elem_def menu_item_defs lit_simps
                fun_upd_twist)

theorem phantom4_changeStage_shows_witness:
  "document blank_page ''scratch_stage'' =
     Some \<lparr>style_display = ''block'', elem_height = ''360'', elem_width = ''480''\<rparr> \<and>
   document blank_page ''gameContainer_drone'' =
     Some \<lparr>style_display = ''none'', elem_height = [], elem_width = []\<rparr> \<and>
   droneFlag (fst (phantom4_changeStage s_simulator blank_page)) = Some True"
proof -
  have a: "document blank_page ''scratch_stage'' =
     Some \<lparr>style_display = ''block'', elem_height = ''360'', elem_width = ''480''\<rparr>"
    and b: "document blank_page ''gameContainer_drone'' =
     Some \<lparr>style_display = ''none'', elem_height = [], elem_width = []\<rparr>"
    by (simp_all add: blank_page_def)
  show ?thesis using phantom4_changeStage_shows [OF a b] a b by simp
qed

text \<open>C5: a missing element is an exception with a partial effect.  Without the drone
  container, \<open>changeStage\<close> to the standard stage throws a TypeError after it has
  already shown the Scratch stage, and \<open>droneFlag\<close>, the size and the container
  are left as they were.\<close>

theorem phantom4_changeStage_partial:
  assumes "document pg ''scratch_stage'' = Some e1"
    and "document pg ''gameContainer_drone'' = None"
  shows "phantom4_changeStage s_standard pg =
           (pg\<lparr>document := (document pg)(''scratch_stage'' \<mapsto> e1\<lparr>style_display := ''block''\<rparr>)\<rparr>,
            Inl (null_read ''style''))"
  using assms by (simp add: phantom4_changeStage_def js_then_def set_elem_def)

theorem phantom4_changeStage_partial_witness:
  "document (blank_page\<lparr>document := [''scratch_stage'' \<mapsto> \<lparr>style_display = ''none'',
      elem_height = [], elem_width = []\<rparr>]\<rparr>) ''scratch_stage'' =
     Some \<lparr>style_display = ''none'', elem_height = [], elem_width = []\<rparr> \<and>
   document (blank_page\<lparr>document := [''scratch_stage'' \<mapsto> \<lparr>style_display = ''none'',
      elem_height = [], elem_width = []\<rparr>]\<rparr>) ''gameContainer_drone'' = None \<and>
   snd (phantom4_changeStage s_standard (blank_page\<lparr>document := [''scratch_stage'' \<mapsto>
      \<lparr>style_display = ''none'', elem_height = [], elem_width = []\<rparr>]\<rparr>)) =
     Inl (null_read ''style'')"
proof -
  let ?pg = "blank_page\<lparr>document := [''scratch_stage'' \<mapsto> \<lparr>style_display = ''none'',
      elem_height = [], elem_width = []\<rparr>]\<rparr>"
  have a: "document ?pg ''scratch_stage'' =
      Some \<lparr>style_display = ''none'', elem_height = [], elem_width = []\<rparr>" by simp
  have b: "document ?pg ''gameContainer_drone'' = None" by simp
  show ?thesis using phantom4_changeStage_partial [OF a b] a b by simp
qed

text \<open>C15: switching to the standard stage undoes any earlier switch: with both elements
  on the page, \<open>changeStage\<close> to the standard stage after \<open>changeStage m\<close>, for any
  \<open>m\<close>, gives the page and outcome of switching to the standard stage directly
  (the standard branch writes every property the simulator branch writes).\<close>

theorem phantom4_changeStage_standard_resets:
  assumes "document pg ''scratch_stage'' = Some e1" and "document pg ''gameContainer_drone'' = Some e2"
  shows "phantom4_changeStage s_standard (fst (phantom4_changeStage m pg)) =
         phantom4_changeStage s_standard pg"
proof -
  have ne: "s_standard \<noteq> s_simulator" by (simp add: menu_item_defs lit_simps)
  show ?thesis
    using assms ne
    by (cases "m = s_standard"; cases "m = s_simulator")
       (simp_all add: phantom4_changeStage_def js_then_def set_elem_def fun_upd_twist)
qed

theorem phantom4_changeStage_standard_resets_witness:
  "document blank_page ''scratch_stage'' =
     Some \<lparr>style_display = ''block'', elem_height = ''360'', elem_width = ''480''\<rparr> \<and>
   document blank_page ''gameContainer_drone'' =
     Some \<lparr>style_display = ''none'', elem_height = [], elem_width = []\<rparr> \<and>
   phantom4_changeStage s_standard (fst (phantom4_changeStage s_simulator blank_page)) =
     phantom4_changeStage s_standard blank_page"
proof -
  have a: "document blank_page ''scratch_stage'' =
     Some \<lparr>style_display = ''block'', elem_height = ''360'', elem_width = ''480''\<rparr>"
    and b: "document blank_page ''gameContainer_drone'' =
     Some \<lparr>style_display = ''none'', elem_height = [], elem_width = []\<rparr>"
    by (simp_all add: blank_page_def)
  show ?thesis using phantom4_changeStage_standard_resets [OF a b, of s_simulator] a b by simp
qed

text \<open>C20: exactly when \<open>changeStage\<close> throws: when its item is one of the two stage
  items and one of the two elements is missing from the page.  Any other item does
  nothing, and with both elements present it always completes.\<close>

theorem phantom4_changeStage_throws:
  "(\<exists>err. snd (phantom4_changeStage m pg) = Inl err) \<longleftrightarrow>
   (m = s_standard \<or> m = s_simulator) \<and>
   (document pg ''scratch_stage'' = None \<or> document pg ''gameContainer_drone'' = None)"
proof -
  have ne: "s_standard \<noteq> s_simulator" by (simp add: menu_item_defs lit_simps)
  show ?thesis
    using ne
    by (cases "m = s_standard"; cases "m = s_simulator";
        cases "document pg ''scratch_stage''"; cases "document pg ''gameContainer_drone''")
       (simp_all add: phantom4_changeStage_def js_then_def set_elem_def)
qed

end
