(* ===== verification/Tello.thy ===== *)
theory Tello
  imports Protocol
begin

text \<open>
  \<open>src/src/extensions/scratch3_dji_tello/index.js\<close>, class \<open>DjiTelloBlocks\<close>:
  the constructor, one definition per handler method in the order of the class, and
  \<open>tello_call\<close>, the runtime's dispatch of a call to the method of its opcode.  The
  command handlers send through \<open>djiTelloInstance.SendMessage("Drones", "Scratch3", v)\<close>
  with the same value strings as the Mambo handlers; \<open>picture\<close> has its call commented
  out and \<open>face\<close>, \<open>searchColor\<close>, \<open>move\<close> are empty, and the class has no
  \<open>grab\<close> or \<open>shoot\<close>.  The lemmas show that every handler sends the command
  \<open>spec_cmd\<close> describes, except \<open>picture\<close>, which sends nothing.
\<close>

section \<open>Constructor and handlers\<close>

text \<open>\<open>stageId = 2; changeStage(stageId); djiTelloInstance = UnityLoader.instantiate(...)\<close>\<close>

definition tello_new :: "page \<Rightarrow> page" where
  "tello_new pg =
    (let pg1 = pg\<lparr>stageId := Some 2\<rparr>;
         pg2 = page_changeStage 2 pg1
     in pg2\<lparr>djiTelloInstance :=
          Some (unity_instantiate ''djiTello_drone'' ''static/dji_tello/dji_tello.json'')\<rparr>)"

text \<open>Two independent \<open>if\<close>s on \<open>args.m\<close>; any other value does nothing.\<close>

definition tello_changeStage :: "string \<Rightarrow> page \<Rightarrow> page" where
  "tello_changeStage m pg =
    (let pg1 = (if m = s_standard then page_changeStage 0 (pg\<lparr>stageId := Some 0\<rparr>) else pg)
     in if m = s_simulator then page_changeStage 2 (pg1\<lparr>stageId := Some 2\<rparr>) else pg1)"

definition tello_reset :: "page \<Rightarrow> page \<times> (js_error + unit)" where
  "tello_reset pg = send_message (djiTelloInstance pg) ''Drones'' ''Scratch3'' ''0,3'' pg"

definition tello_takeoff :: "page \<Rightarrow> page \<times> (js_error + unit)" where
  "tello_takeoff pg = send_message (djiTelloInstance pg) ''Drones'' ''Scratch3'' ''0,4'' pg"

definition tello_landing :: "page \<Rightarrow> page \<times> (js_error + unit)" where
  "tello_landing pg = send_message (djiTelloInstance pg) ''Drones'' ''Scratch3'' ''0,5'' pg"

definition tello_stop :: "page \<Rightarrow> page \<times> (js_error + unit)" where
  "tello_stop pg = send_message (djiTelloInstance pg) ''Drones'' ''Scratch3'' ''0,2'' pg"

definition tello_set_gaz :: "string \<Rightarrow> int \<Rightarrow> page \<Rightarrow> page \<times> (js_error + unit)" where
  "tello_set_gaz m n pg =
    (let a = js_sign s_down m; tmp = js_clamp_hi 100 n
     in send_message (djiTelloInstance pg) ''Drones'' ''Scratch3'' (''0,120,0,'' @ js_num_str (a * tmp)) pg)"

definition tello_set_pitch :: "string \<Rightarrow> int \<Rightarrow> page \<Rightarrow> page \<times> (js_error + unit)" where
  "tello_set_pitch m n pg =
    (let a = js_sign s_backward m; tmp = js_clamp_hi 100 n
     in send_message (djiTelloInstance pg) ''Drones'' ''Scratch3'' (''0,110,0,'' @ js_num_str (a * tmp)) pg)"

definition tello_set_roll :: "string \<Rightarrow> int \<Rightarrow> page \<Rightarrow> page \<times> (js_error + unit)" where
  "tello_set_roll m n pg =
    (let a = js_sign s_left_move m; tmp = js_clamp_hi 100 n
     in send_message (djiTelloInstance pg) ''Drones'' ''Scratch3'' (''0,100,0,'' @ js_num_str (a * tmp)) pg)"

definition tello_set_yaw :: "string \<Rightarrow> int \<Rightarrow> page \<Rightarrow> page \<times> (js_error + unit)" where
  "tello_set_yaw m n pg =
    (let a = js_sign s_left_turn m; tmp = js_clamp_hi 100 n
     in send_message (djiTelloInstance pg) ''Drones'' ''Scratch3'' (''0,130,0,'' @ js_num_str (a * tmp)) pg)"

definition tello_cap :: "string \<Rightarrow> int \<Rightarrow> page \<Rightarrow> page \<times> (js_error + unit)" where
  "tello_cap m n pg =
    (let a = js_sign s_left_turn m; tmp = js_clamp_hi 360 n
     in send_message (djiTelloInstance pg) ''Drones'' ''Scratch3'' (''0,200,0,'' @ js_num_str (a * tmp)) pg)"

definition tello_flip :: "string \<Rightarrow> page \<Rightarrow> page \<times> (js_error + unit)" where
  "tello_flip m pg =
    (let a = flip_code m
     in send_message (djiTelloInstance pg) ''Drones'' ''Scratch3'' (''0,210,'' @ js_num_str a) pg)"

definition tello_light :: "int \<Rightarrow> page \<Rightarrow> page \<times> (js_error + unit)" where
  "tello_light n pg =
    send_message (djiTelloInstance pg) ''Drones'' ''Scratch3'' (''0,220,0,'' @ js_num_str (n * 255)) pg"

text \<open>\<open>face\<close> and \<open>searchColor\<close> are empty; \<open>picture\<close> has its \<open>SendMessage\<close>
  commented out.\<close>

definition tello_face :: "string \<Rightarrow> page \<Rightarrow> page \<times> (js_error + unit)" where
  "tello_face m pg = (pg, Inr ())"

definition tello_picture :: "page \<Rightarrow> page \<times> (js_error + unit)" where
  "tello_picture pg = (pg, Inr ())"

definition tello_searchColor :: "string \<Rightarrow> page \<Rightarrow> page \<times> (js_error + unit)" where
  "tello_searchColor c pg = (pg, Inr ())"

text \<open>The signs \<open>p, r, y, g\<close> of the source are \<open>sp, sr, sy, sg\<close> here, to keep
  them apart from the arguments \<open>args.p\<close> and \<open>args.r\<close>.  The value string lists
  roll, pitch, gaz, yaw, in that order.\<close>

definition tello_pitch_roll_yaw_gaz ::
  "string \<Rightarrow> int \<Rightarrow> string \<Rightarrow> int \<Rightarrow> string \<Rightarrow> int \<Rightarrow> string \<Rightarrow> int \<Rightarrow> page \<Rightarrow>
   page \<times> (js_error + unit)" where
  "tello_pitch_roll_yaw_gaz m n o' p q r s t pg =
    (let sp = js_sign s_backward m; sr = js_sign s_left_move o';
         sy = js_sign s_left_turn q; sg = js_sign s_down s;
         tmp_p = js_clamp_hi 100 n; tmp_r = js_clamp_hi 100 p;
         tmp_y = js_clamp_hi 100 r; tmp_g = js_clamp_hi 100 t;
         str = js_num_str (sr * tmp_r) @ '':'' @ js_num_str (sp * tmp_p) @ '':'' @
               js_num_str (sg * tmp_g) @ '':'' @ js_num_str (sy * tmp_y)
     in send_message (djiTelloInstance pg) ''Drones'' ''Scratch3'' (''0,140,0,'' @ str) pg)"

definition tello_move :: "string \<Rightarrow> page \<Rightarrow> page \<times> (js_error + unit)" where
  "tello_move m pg = (pg, Inr ())"

section \<open>Dispatch by opcode\<close>

text \<open>The reporters \<open>connected\<close>, \<open>gaz\<close>, \<open>pitch\<close>, \<open>roll\<close>, \<open>battery\<close> return
  constants; \<open>grab\<close> and \<open>shoot\<close>, which this class has no method for, throw.\<close>

fun tello_call :: "call \<Rightarrow> page \<Rightarrow> page \<times> (js_error + js_result)" where
  "tello_call (ChangeStage m) pg = (tello_changeStage m pg, Inr Undefined)"
| "tello_call Reset pg = cmd_result (tello_reset pg)"
| "tello_call (Connected _) pg = (pg, Inr (JBool False))"
| "tello_call GetGaz pg = (pg, Inr (JNumber 0))"
| "tello_call GetPitch pg = (pg, Inr (JNumber 0))"
| "tello_call GetRoll pg = (pg, Inr (JNumber 0))"
| "tello_call GetBattery pg = (pg, Inr (JNumber 0))"
| "tello_call Takeoff pg = cmd_result (tello_takeoff pg)"
| "tello_call Landing pg = cmd_result (tello_landing pg)"
| "tello_call Stop pg = cmd_result (tello_stop pg)"
| "tello_call (SetGaz m n) pg = cmd_result (tello_set_gaz m n pg)"
| "tello_call (SetPitch m n) pg = cmd_result (tello_set_pitch m n pg)"
| "tello_call (SetRoll m n) pg = cmd_result (tello_set_roll m n pg)"
| "tello_call (SetYaw m n) pg = cmd_result (tello_set_yaw m n pg)"
| "tello_call (Cap m n) pg = cmd_result (tello_cap m n pg)"
| "tello_call (Flip m) pg = cmd_result (tello_flip m pg)"
| "tello_call (Light n) pg = cmd_result (tello_light n pg)"
| "tello_call (Grab x) pg = not_a_function (Grab x) pg"
| "tello_call Picture pg = cmd_result (tello_picture pg)"
| "tello_call Shoot pg = not_a_function Shoot pg"
| "tello_call (PitchRollYawGaz m n o' p q r s t) pg =
     cmd_result (tello_pitch_roll_yaw_gaz m n o' p q r s t pg)"
| "tello_call (SearchColor c) pg = cmd_result (tello_searchColor c pg)"
| "tello_call (Face m) pg = cmd_result (tello_face m pg)"
| "tello_call (Move m) pg = cmd_result (tello_move m pg)"

lemmas tello_handler_defs = tello_reset_def tello_takeoff_def tello_landing_def tello_stop_def
  tello_set_gaz_def tello_set_pitch_def tello_set_roll_def tello_set_yaw_def tello_cap_def
  tello_flip_def tello_light_def tello_face_def tello_picture_def tello_searchColor_def
  tello_pitch_roll_yaw_gaz_def tello_move_def


section \<open>The handlers against the command specification\<close>

lemma tello_call_sends:
  assumes "djiTelloInstance pg = Some u" and "spec_cmd c = Some cmd" and "c \<noteq> Picture"
    and "call_opcode c \<notin> {''grab'', ''shoot''}"
  shows "tello_call c pg = (pg\<lparr>sent := sent pg @ [drone_msg u cmd]\<rparr>, Inr Undefined)"
  using assms(1) assms(2) [symmetric] assms(3-)
  by (cases c) (simp_all add: tello_handler_defs page_simps cmd_simps drone_msg_def mult.commute)

lemma tello_has_method: "call_opcode c \<in> set (opcodes tello_getInfo) \<Longrightarrow> call_opcode c \<notin> {''grab'', ''shoot''}"
  by (auto simp: opcodes_tello)

lemma tello_call_silent:
  assumes "spec_cmd c = None \<or> c = Picture" and "call_opcode c \<in> set (opcodes tello_getInfo)"
  shows "sent (fst (tello_call c pg)) = sent pg \<and> (\<exists>v. snd (tello_call c pg) = Inr v)"
  using assms
  by (cases c) (simp_all add: tello_changeStage_def tello_handler_defs page_simps Let_def
                  opcodes_tello)

text \<open>What a call leaves alone, and what it does to the stage globals: only
  \<open>changeStage\<close> writes them, to stage 0 or 2.\<close>

lemma tello_call_frame [page_simps]:
  "document (fst (tello_call c pg)) = document pg"
  "djiTelloInstance (fst (tello_call c pg)) = djiTelloInstance pg"
  "gameInstance (fst (tello_call c pg)) = gameInstance pg"
  "droneFlag (fst (tello_call c pg)) = droneFlag pg"
  by (cases c; simp add: tello_handler_defs tello_changeStage_def page_simps Let_def)+

lemma tello_call_stage:
  "(stageId (fst (tello_call c pg)) = stageId pg \<and> stage_calls (fst (tello_call c pg)) = stage_calls pg) \<or>
   (\<exists>k\<in>{0, 2}. stageId (fst (tello_call c pg)) = Some k \<and>
                stage_calls (fst (tello_call c pg)) = stage_calls pg @ [k])"
proof (cases c)
  case (ChangeStage m)
  have "s_standard \<noteq> s_simulator" by (simp add: menu_item_defs lit_simps)
  with ChangeStage show ?thesis by (auto simp: tello_changeStage_def page_simps Let_def)
qed (simp_all add: tello_handler_defs page_simps Let_def)

lemma tello_new_simps [page_simps]:
  "stageId (tello_new pg) = Some 2" "stage_calls (tello_new pg) = stage_calls pg @ [2]"
  "djiTelloInstance (tello_new pg) \<noteq> None" "sent (tello_new pg) = sent pg"
  "document (tello_new pg) = document pg" "gameInstance (tello_new pg) = gameInstance pg"
  "droneFlag (tello_new pg) = droneFlag pg"
  by (simp_all add: tello_new_def page_simps)

text \<open>A call adds at most one message to the log, and rewrites none.\<close>

lemma tello_call_appends:
  "\<exists>ms. sent (fst (tello_call c pg)) = sent pg @ ms \<and> length ms \<le> 1"
  by (cases c) (simp_all add: tello_changeStage_def tello_handler_defs Let_def page_simps
                              send_message_def split: option.splits)

text \<open>Calls that send nothing: those not meant to, \<open>picture\<close>, the opcodes without a
  method, and every call before \<open>djiTelloInstance\<close> exists.\<close>

lemma tello_call_quiet:
  "spec_cmd c = None \<or> c = Picture \<or> call_opcode c \<in> {''grab'', ''shoot''} \<Longrightarrow>
   sent (fst (tello_call c pg)) = sent pg"
  by (cases c) (simp_all add: tello_changeStage_def tello_handler_defs page_simps Let_def)

lemma tello_call_no_instance:
  "djiTelloInstance pg = None \<Longrightarrow> sent (fst (tello_call c pg)) = sent pg"
  by (cases c) (simp_all add: tello_changeStage_def tello_handler_defs page_simps Let_def send_message_def)

text \<open>Every message a call adds goes through \<open>djiTelloInstance\<close>.\<close>

lemma tello_call_via:
  "\<exists>ms. sent (fst (tello_call c pg)) = sent pg @ ms \<and>
        (\<forall>m\<in>set ms. djiTelloInstance pg = Some (msg_instance m))"
  by (cases c) (simp_all add: tello_changeStage_def tello_handler_defs Let_def page_simps
                              send_message_def split: option.splits)

text \<open>The footprint of a call other than \<open>changeStage\<close> (which calls the page's
  \<open>changeStage\<close>, whose DOM effect is not modelled): it writes only \<open>sent\<close>, and what
  it does does not depend on the DOM or \<open>droneFlag\<close>.\<close>

lemma tello_call_confined:
  assumes "\<forall>m. c \<noteq> ChangeStage m"
  shows "fst (tello_call c pg) = pg\<lparr>sent := sent (fst (tello_call c pg))\<rparr>"
  using assms by (cases c) (simp_all add: tello_handler_defs Let_def cmd_result_def
       send_message_def not_a_function_def split: option.splits)

lemma tello_call_indep:
  assumes "\<forall>m. c \<noteq> ChangeStage m"
  shows "tello_call c (pg\<lparr>document := d, droneFlag := f\<rparr>) =
     ((fst (tello_call c pg))\<lparr>document := d, droneFlag := f\<rparr>, snd (tello_call c pg))"
  using assms by (cases c) (simp_all add: tello_handler_defs Let_def cmd_result_def
       send_message_def not_a_function_def split: option.splits)

text \<open>C2: refinement.  Every call of an opcode of the Tello catalog, once
  \<open>djiTelloInstance\<close> exists, adds to the simulator's decoded command log exactly the
  commands \<open>spec_cmd\<close> gives for it, except \<open>picture\<close>, which adds none, and no
  call throws.\<close>

theorem tello_call_refines:
  assumes "djiTelloInstance pg = Some u" and "call_opcode c \<in> set (opcodes tello_getInfo)"
  shows "cmd_log (sent (fst (tello_call c pg))) =
           cmd_log (sent pg) @ (if c = Picture then [] else spec_log c) \<and>
         (\<exists>v. snd (tello_call c pg) = Inr v)"
proof (cases "spec_cmd c = None \<or> c = Picture")
  case True
  with tello_call_silent [OF True assms(2)] show ?thesis by (auto simp: spec_log_def)
next
  case False
  then obtain cmd where cmd: "spec_cmd c = Some cmd" and np: "c \<noteq> Picture" by auto
  with tello_call_sends [OF assms(1) cmd np tello_has_method [OF assms(2)]] show ?thesis
    by (simp add: spec_log_def cmd_log_append_drone_msg)
qed

theorem tello_call_refines_witness:
  "djiTelloInstance (tello_new blank_page) =
     Some (unity_instantiate ''djiTello_drone'' ''static/dji_tello/dji_tello.json'') \<and>
   call_opcode (Cap s_left_turn 720) \<in> set (opcodes tello_getInfo) \<and>
   cmd_log (sent (fst (tello_call (Cap s_left_turn 720) (tello_new blank_page)))) =
     [Some (CmdCap (-360))]"
proof -
  have i: "djiTelloInstance (tello_new blank_page) =
     Some (unity_instantiate ''djiTello_drone'' ''static/dji_tello/dji_tello.json'')"
    by (simp add: tello_new_def page_simps)
  have o: "call_opcode (Cap s_left_turn 720) \<in> set (opcodes tello_getInfo)"
    by (simp add: opcodes_tello)
  have s: "sent (tello_new blank_page) = []"
    by (simp add: tello_new_def page_simps blank_page_def)
  show ?thesis
    using tello_call_refines [OF i o] i o s by (simp add: spec_log_def velocity_def cmd_log_def)
qed

end
