(* ===== verification/Mambo.thy ===== *)
theory Mambo
  imports Protocol
begin

text \<open>
  \<open>src/src/extensions/scratch3_parrot_mambo/index.js\<close>, class \<open>ParrotMamboBlocks\<close>:
  the constructor, one definition per handler method in the order of the class, and
  \<open>mambo_call\<close>, the runtime's dispatch of a call to the method of its opcode.  Every
  command handler ends in \<open>gameInstance.SendMessage("Drones", "Scratch3", v)\<close>.
  The lemmas show that every handler sends exactly the command \<open>spec_cmd\<close> describes
  (\<open>mambo_call_refines\<close>), which opcodes have no method, and what \<open>changeStage\<close>
  does to the global \<open>stageId\<close>.
\<close>

section \<open>Constructor and handlers\<close>

text \<open>\<open>stageId = 1; changeStage(stageId); gameInstance = UnityLoader.instantiate(...)\<close>\<close>

definition mambo_new :: "page \<Rightarrow> page" where
  "mambo_new pg =
    (let pg1 = pg\<lparr>stageId := Some 1\<rparr>;
         pg2 = page_changeStage 1 pg1
     in pg2\<lparr>gameInstance := Some (unity_instantiate ''gameContainer_drone'' ''static/WebGL/WebGL.json'')\<rparr>)"

text \<open>Two independent \<open>if\<close>s on \<open>args.m\<close>; any other value does nothing.\<close>

definition mambo_changeStage :: "string \<Rightarrow> page \<Rightarrow> page" where
  "mambo_changeStage m pg =
    (let pg1 = (if m = s_standard then page_changeStage 0 (pg\<lparr>stageId := Some 0\<rparr>) else pg)
     in if m = s_simulator then page_changeStage 1 (pg1\<lparr>stageId := Some 1\<rparr>) else pg1)"

definition mambo_reset :: "page \<Rightarrow> page \<times> (js_error + unit)" where
  "mambo_reset pg = send_message (gameInstance pg) ''Drones'' ''Scratch3'' ''0,3'' pg"

definition mambo_takeoff :: "page \<Rightarrow> page \<times> (js_error + unit)" where
  "mambo_takeoff pg = send_message (gameInstance pg) ''Drones'' ''Scratch3'' ''0,4'' pg"

definition mambo_landing :: "page \<Rightarrow> page \<times> (js_error + unit)" where
  "mambo_landing pg = send_message (gameInstance pg) ''Drones'' ''Scratch3'' ''0,5'' pg"

definition mambo_stop :: "page \<Rightarrow> page \<times> (js_error + unit)" where
  "mambo_stop pg = send_message (gameInstance pg) ''Drones'' ''Scratch3'' ''0,2'' pg"

definition mambo_set_gaz :: "string \<Rightarrow> int \<Rightarrow> page \<Rightarrow> page \<times> (js_error + unit)" where
  "mambo_set_gaz m n pg =
    (let a = js_sign s_down m; tmp = js_clamp_hi 100 n
     in send_message (gameInstance pg) ''Drones'' ''Scratch3'' (''0,120,0,'' @ js_num_str (a * tmp)) pg)"

definition mambo_set_pitch :: "string \<Rightarrow> int \<Rightarrow> page \<Rightarrow> page \<times> (js_error + unit)" where
  "mambo_set_pitch m n pg =
    (let a = js_sign s_backward m; tmp = js_clamp_hi 100 n
     in send_message (gameInstance pg) ''Drones'' ''Scratch3'' (''0,110,0,'' @ js_num_str (a * tmp)) pg)"

definition mambo_set_roll :: "string \<Rightarrow> int \<Rightarrow> page \<Rightarrow> page \<times> (js_error + unit)" where
  "mambo_set_roll m n pg =
    (let a = js_sign s_left_move m; tmp = js_clamp_hi 100 n
     in send_message (gameInstance pg) ''Drones'' ''Scratch3'' (''0,100,0,'' @ js_num_str (a * tmp)) pg)"

definition mambo_set_yaw :: "string \<Rightarrow> int \<Rightarrow> page \<Rightarrow> page \<times> (js_error + unit)" where
  "mambo_set_yaw m n pg =
    (let a = js_sign s_left_turn m; tmp = js_clamp_hi 100 n
     in send_message (gameInstance pg) ''Drones'' ''Scratch3'' (''0,130,0,'' @ js_num_str (a * tmp)) pg)"

definition mambo_cap :: "string \<Rightarrow> int \<Rightarrow> page \<Rightarrow> page \<times> (js_error + unit)" where
  "mambo_cap m n pg =
    (let a = js_sign s_left_turn m; tmp = js_clamp_hi 360 n
     in send_message (gameInstance pg) ''Drones'' ''Scratch3'' (''0,200,0,'' @ js_num_str (a * tmp)) pg)"

definition mambo_flip :: "string \<Rightarrow> page \<Rightarrow> page \<times> (js_error + unit)" where
  "mambo_flip m pg =
    (let a = flip_code m
     in send_message (gameInstance pg) ''Drones'' ''Scratch3'' (''0,210,'' @ js_num_str a) pg)"

definition mambo_light :: "int \<Rightarrow> page \<Rightarrow> page \<times> (js_error + unit)" where
  "mambo_light n pg =
    send_message (gameInstance pg) ''Drones'' ''Scratch3'' (''0,220,0,'' @ js_num_str (n * 255)) pg"

definition mambo_grab :: "string \<Rightarrow> page \<Rightarrow> page \<times> (js_error + unit)" where
  "mambo_grab m pg =
    (let a = grab_code m
     in send_message (gameInstance pg) ''Drones'' ''Scratch3'' (''0,230,'' @ js_num_str a) pg)"

definition mambo_picture :: "page \<Rightarrow> page \<times> (js_error + unit)" where
  "mambo_picture pg = send_message (gameInstance pg) ''Drones'' ''Scratch3'' ''0,7'' pg"

definition mambo_shoot :: "page \<Rightarrow> page \<times> (js_error + unit)" where
  "mambo_shoot pg = send_message (gameInstance pg) ''Drones'' ''Scratch3'' ''0,6'' pg"

text \<open>The signs \<open>p, r, y, g\<close> of the source are \<open>sp, sr, sy, sg\<close> here, to keep
  them apart from the arguments \<open>args.p\<close> and \<open>args.r\<close>.  The value string lists
  roll, pitch, gaz, yaw, in that order.\<close>

definition mambo_pitch_roll_yaw_gaz ::
  "string \<Rightarrow> int \<Rightarrow> string \<Rightarrow> int \<Rightarrow> string \<Rightarrow> int \<Rightarrow> string \<Rightarrow> int \<Rightarrow> page \<Rightarrow>
   page \<times> (js_error + unit)" where
  "mambo_pitch_roll_yaw_gaz m n o' p q r s t pg =
    (let sp = js_sign s_backward m; sr = js_sign s_left_move o';
         sy = js_sign s_left_turn q; sg = js_sign s_down s;
         tmp_p = js_clamp_hi 100 n; tmp_r = js_clamp_hi 100 p;
         tmp_y = js_clamp_hi 100 r; tmp_g = js_clamp_hi 100 t;
         str = js_num_str (sr * tmp_r) @ '':'' @ js_num_str (sp * tmp_p) @ '':'' @
               js_num_str (sg * tmp_g) @ '':'' @ js_num_str (sy * tmp_y)
     in send_message (gameInstance pg) ''Drones'' ''Scratch3'' (''0,140,0,'' @ str) pg)"

section \<open>Dispatch by opcode\<close>

text \<open>The reporters \<open>connected\<close>, \<open>gaz\<close>, \<open>pitch\<close>, \<open>roll\<close>, \<open>battery\<close> return
  constants; the opcodes of the Tello catalog that this class has no method for throw.\<close>

fun mambo_call :: "call \<Rightarrow> page \<Rightarrow> page \<times> (js_error + js_result)" where
  "mambo_call (ChangeStage m) pg = (mambo_changeStage m pg, Inr Undefined)"
| "mambo_call Reset pg = cmd_result (mambo_reset pg)"
| "mambo_call (Connected _) pg = (pg, Inr (JBool False))"
| "mambo_call GetGaz pg = (pg, Inr (JNumber 0))"
| "mambo_call GetPitch pg = (pg, Inr (JNumber 0))"
| "mambo_call GetRoll pg = (pg, Inr (JNumber 0))"
| "mambo_call GetBattery pg = (pg, Inr (JNumber 0))"
| "mambo_call Takeoff pg = cmd_result (mambo_takeoff pg)"
| "mambo_call Landing pg = cmd_result (mambo_landing pg)"
| "mambo_call Stop pg = cmd_result (mambo_stop pg)"
| "mambo_call (SetGaz m n) pg = cmd_result (mambo_set_gaz m n pg)"
| "mambo_call (SetPitch m n) pg = cmd_result (mambo_set_pitch m n pg)"
| "mambo_call (SetRoll m n) pg = cmd_result (mambo_set_roll m n pg)"
| "mambo_call (SetYaw m n) pg = cmd_result (mambo_set_yaw m n pg)"
| "mambo_call (Cap m n) pg = cmd_result (mambo_cap m n pg)"
| "mambo_call (Flip m) pg = cmd_result (mambo_flip m pg)"
| "mambo_call (Light n) pg = cmd_result (mambo_light n pg)"
| "mambo_call (Grab m) pg = cmd_result (mambo_grab m pg)"
| "mambo_call Picture pg = cmd_result (mambo_picture pg)"
| "mambo_call Shoot pg = cmd_result (mambo_shoot pg)"
| "mambo_call (PitchRollYawGaz m n o' p q r s t) pg =
     cmd_result (mambo_pitch_roll_yaw_gaz m n o' p q r s t pg)"
| "mambo_call (SearchColor x) pg = not_a_function (SearchColor x) pg"
| "mambo_call (Face x) pg = not_a_function (Face x) pg"
| "mambo_call (Move x) pg = not_a_function (Move x) pg"

lemmas mambo_handler_defs = mambo_reset_def mambo_takeoff_def mambo_landing_def mambo_stop_def
  mambo_set_gaz_def mambo_set_pitch_def mambo_set_roll_def mambo_set_yaw_def mambo_cap_def
  mambo_flip_def mambo_light_def mambo_grab_def mambo_picture_def mambo_shoot_def
  mambo_pitch_roll_yaw_gaz_def

section \<open>The handlers against the command specification\<close>

text \<open>Every call that is meant to send a command sends exactly that command's message
  and returns \<open>undefined\<close>, once \<open>gameInstance\<close> exists.\<close>

lemma mambo_call_sends:
  assumes "gameInstance pg = Some u" and "spec_cmd c = Some cmd"
  shows "mambo_call c pg = (pg\<lparr>sent := sent pg @ [drone_msg u cmd]\<rparr>, Inr Undefined)"
  using assms(1) assms(2) [symmetric]
  by (cases c) (simp_all add: mambo_handler_defs page_simps cmd_simps drone_msg_def mult.commute)

text \<open>Every other call of the catalog sends nothing and does not throw.\<close>

lemma mambo_call_silent:
  assumes "spec_cmd c = None" and "call_opcode c \<in> set (opcodes mambo_getInfo)"
  shows "sent (fst (mambo_call c pg)) = sent pg \<and> (\<exists>v. snd (mambo_call c pg) = Inr v)"
  using assms
  by (cases c) (simp_all add: mambo_changeStage_def page_simps Let_def opcodes_mambo)

text \<open>What a call leaves alone, and what it does to the stage globals: only
  \<open>changeStage\<close> writes them, to stage 0 or 1.\<close>

lemma mambo_call_frame [page_simps]:
  "document (fst (mambo_call c pg)) = document pg"
  "djiTelloInstance (fst (mambo_call c pg)) = djiTelloInstance pg"
  "gameInstance (fst (mambo_call c pg)) = gameInstance pg"
  "droneFlag (fst (mambo_call c pg)) = droneFlag pg"
  by (cases c; simp add: mambo_handler_defs mambo_changeStage_def page_simps Let_def)+

lemma mambo_call_stage:
  "(stageId (fst (mambo_call c pg)) = stageId pg \<and> stage_calls (fst (mambo_call c pg)) = stage_calls pg) \<or>
   (\<exists>k\<in>{0, 1}. stageId (fst (mambo_call c pg)) = Some k \<and>
                stage_calls (fst (mambo_call c pg)) = stage_calls pg @ [k])"
proof (cases c)
  case (ChangeStage m)
  have "s_standard \<noteq> s_simulator" by (simp add: menu_item_defs lit_simps)
  with ChangeStage show ?thesis by (auto simp: mambo_changeStage_def page_simps Let_def)
qed (simp_all add: mambo_handler_defs page_simps Let_def)

lemma mambo_new_simps [page_simps]:
  "stageId (mambo_new pg) = Some 1" "stage_calls (mambo_new pg) = stage_calls pg @ [1]"
  "gameInstance (mambo_new pg) \<noteq> None" "sent (mambo_new pg) = sent pg"
  "document (mambo_new pg) = document pg" "djiTelloInstance (mambo_new pg) = djiTelloInstance pg"
  "droneFlag (mambo_new pg) = droneFlag pg"
  by (simp_all add: mambo_new_def page_simps)

text \<open>A call adds at most one message to the log, and rewrites none.\<close>

lemma mambo_call_appends:
  "\<exists>ms. sent (fst (mambo_call c pg)) = sent pg @ ms \<and> length ms \<le> 1"
  by (cases c) (simp_all add: mambo_changeStage_def mambo_handler_defs Let_def page_simps
                              send_message_def split: option.splits)

text \<open>Every message a call adds goes through \<open>gameInstance\<close>.\<close>

lemma mambo_call_via:
  "\<exists>ms. sent (fst (mambo_call c pg)) = sent pg @ ms \<and>
        (\<forall>m\<in>set ms. gameInstance pg = Some (msg_instance m))"
  by (cases c) (simp_all add: mambo_changeStage_def mambo_handler_defs Let_def page_simps
                              send_message_def split: option.splits)

text \<open>The footprint of a call other than \<open>changeStage\<close> (which calls the page's
  \<open>changeStage\<close>, whose DOM effect is not modelled): it writes only \<open>sent\<close>, and what
  it does does not depend on the DOM or \<open>droneFlag\<close>.\<close>

lemma mambo_call_confined:
  assumes "\<forall>m. c \<noteq> ChangeStage m"
  shows "fst (mambo_call c pg) = pg\<lparr>sent := sent (fst (mambo_call c pg))\<rparr>"
  using assms by (cases c) (simp_all add: mambo_handler_defs Let_def cmd_result_def
       send_message_def not_a_function_def split: option.splits)

lemma mambo_call_indep:
  assumes "\<forall>m. c \<noteq> ChangeStage m"
  shows "mambo_call c (pg\<lparr>document := d, droneFlag := f\<rparr>) =
     ((fst (mambo_call c pg))\<lparr>document := d, droneFlag := f\<rparr>, snd (mambo_call c pg))"
  using assms by (cases c) (simp_all add: mambo_handler_defs Let_def cmd_result_def
       send_message_def not_a_function_def split: option.splits)

text \<open>C1: refinement.  Seen by the simulator (the decoded command log), every call of
  an opcode of the Mambo catalog adds exactly the commands \<open>spec_cmd\<close> gives for it,
  none for \<open>changeStage\<close> and the reporters, and no call throws.\<close>

theorem mambo_call_refines:
  assumes "gameInstance pg = Some u" and "call_opcode c \<in> set (opcodes mambo_getInfo)"
  shows "cmd_log (sent (fst (mambo_call c pg))) = cmd_log (sent pg) @ spec_log c \<and>
         (\<exists>v. snd (mambo_call c pg) = Inr v)"
proof (cases "spec_cmd c")
  case None
  with mambo_call_silent [OF None assms(2)] show ?thesis by (simp add: spec_log_def)
next
  case (Some cmd)
  with mambo_call_sends [OF assms(1) Some] show ?thesis
    by (simp add: spec_log_def cmd_log_append_drone_msg)
qed

theorem mambo_call_refines_witness:
  "gameInstance (mambo_new blank_page) =
     Some (unity_instantiate ''gameContainer_drone'' ''static/WebGL/WebGL.json'') \<and>
   call_opcode (SetGaz s_down 150) \<in> set (opcodes mambo_getInfo) \<and>
   cmd_log (sent (fst (mambo_call (SetGaz s_down 150) (mambo_new blank_page)))) =
     [Some (CmdAxis AxGaz (-100))]"
proof -
  have i: "gameInstance (mambo_new blank_page) =
     Some (unity_instantiate ''gameContainer_drone'' ''static/WebGL/WebGL.json'')"
    by (simp add: mambo_new_def page_simps)
  have o: "call_opcode (SetGaz s_down 150) \<in> set (opcodes mambo_getInfo)"
    by (simp add: opcodes_mambo)
  have s: "sent (mambo_new blank_page) = []"
    by (simp add: mambo_new_def page_simps blank_page_def)
  show ?thesis
    using mambo_call_refines [OF i o] i o s by (simp add: spec_log_def velocity_def cmd_log_def)
qed

text \<open>C9: bounds of the velocity handlers.  \<open>set_gaz\<close>, \<open>set_pitch\<close>,
  \<open>set_roll\<close> and \<open>set_yaw\<close> send one axis command whose magnitude is 100 for a
  speed above 100 and the speed's own magnitude otherwise: the clamp
  \<open>args.n > 100 ? 100 : args.n\<close> bounds the speed from above only, and a speed below
  -100 reaches the simulator unclamped.\<close>

theorem mambo_speed_bound:
  assumes "gameInstance pg = Some u" and "c \<in> {SetGaz m n, SetPitch m n, SetRoll m n, SetYaw m n}"
  shows "\<exists>ax v. sent (fst (mambo_call c pg)) = sent pg @ [drone_msg u (CmdAxis ax v)] \<and>
           \<bar>v\<bar> = (if 100 < n then 100 else \<bar>n\<bar>)"
proof -
  have "\<bar>velocity neg 100 m n\<bar> = (if 100 < n then 100 else \<bar>n\<bar>)" for neg
    by (simp add: velocity_def)
  moreover obtain ax neg where "spec_cmd c = Some (CmdAxis ax (velocity neg 100 m n))"
    using assms(2) by auto
  ultimately show ?thesis using mambo_call_sends [OF assms(1)] by fastforce
qed

theorem mambo_speed_bound_witness:
  "gameInstance (mambo_new blank_page) =
     Some (unity_instantiate ''gameContainer_drone'' ''static/WebGL/WebGL.json'') \<and>
   SetGaz s_down (-500) \<in> {SetGaz s_down (-500), SetPitch s_down (-500), SetRoll s_down (-500),
                             SetYaw s_down (-500)} \<and>
   (\<exists>ax v. sent (fst (mambo_call (SetGaz s_down (-500)) (mambo_new blank_page))) =
      sent (mambo_new blank_page) @
        [drone_msg (unity_instantiate ''gameContainer_drone'' ''static/WebGL/WebGL.json'') (CmdAxis ax v)] \<and>
      \<bar>v\<bar> = 500)"
proof -
  have g: "gameInstance (mambo_new blank_page) =
     Some (unity_instantiate ''gameContainer_drone'' ''static/WebGL/WebGL.json'')"
    by (simp add: mambo_new_def page_simps)
  show ?thesis
    using mambo_speed_bound [OF g, of "SetGaz s_down (-500)" s_down "-500"] g by simp
qed

text \<open>C18: menu values outside the menu.  The handlers compare \<open>args.m\<close> with the menu
  items and fall through otherwise.  So a direction that is not the negative item counts
  as the positive one.  A flip item outside the flip menu sends flip code 0, and a grab
  item outside the grab menu sends grab code 0: the \<open>switch\<close> defaults.  A stage item
  outside the stage menu leaves the page as it was.\<close>

theorem mambo_unknown_items:
  "(m \<noteq> s_down \<longrightarrow> mambo_set_gaz m n pg = mambo_set_gaz s_up n pg) \<and>
   (m \<notin> {s_front, s_back, s_right, s_left} \<longrightarrow>
      mambo_flip m pg = send_message (gameInstance pg) ''Drones'' ''Scratch3'' ''0,210,0'' pg) \<and>
   (m \<notin> {s_open, s_close, s_open_close} \<longrightarrow>
      mambo_grab m pg = send_message (gameInstance pg) ''Drones'' ''Scratch3'' ''0,230,0'' pg) \<and>
   (m \<notin> {s_standard, s_simulator} \<longrightarrow> mambo_changeStage m pg = pg)"
  by (simp add: mambo_set_gaz_def mambo_flip_def mambo_grab_def mambo_changeStage_def js_sign_def
                flip_code_def grab_code_def menu_items_distinct js_num_str_0)

theorem mambo_unknown_items_witness:
  "''x'' \<noteq> s_down \<and> ''x'' \<notin> {s_front, s_back, s_right, s_left} \<and>
   ''x'' \<notin> {s_open, s_close, s_open_close} \<and> ''x'' \<notin> {s_standard, s_simulator} \<and>
   mambo_flip ''x'' (mambo_new blank_page) =
     send_message (gameInstance (mambo_new blank_page)) ''Drones'' ''Scratch3'' ''0,210,0''
       (mambo_new blank_page) \<and>
   mambo_changeStage ''x'' blank_page = blank_page"
proof -
  have n: "''x'' \<noteq> s_down" "''x'' \<notin> {s_front, s_back, s_right, s_left}"
    "''x'' \<notin> {s_open, s_close, s_open_close}" "''x'' \<notin> {s_standard, s_simulator}"
    by (simp_all add: menu_item_defs lit_simps)
  show ?thesis
    using mambo_unknown_items [of "''x''" 0 "mambo_new blank_page"]
          mambo_unknown_items [of "''x''" 0 blank_page] n
    by blast
qed

end
