(* ===== verification/Runtime.thy ===== *)
theory Runtime
  imports Phantom4 Tello Mambo
begin

text \<open>
  The three extensions in one page, as the Scratch runtime drives them.  An extension
  is loaded once (its constructor runs on the page); afterwards the runtime may call
  any opcode of a loaded extension's catalog, in any order and interleaved with the
  other extensions.  All of them share the page's globals: Tello and Mambo both write
  \<open>stageId\<close> and call the page's \<open>changeStage\<close>, Phantom 4 writes the DOM.
  \<open>vm_step\<close> is that step relation and \<open>vm_reach\<close> its reachable states from a
  page that is ready (\<open>host_ready\<close>); \<open>vm_inv\<close> is the invariant kept by every step.
  \<open>run_script\<close> runs a list of blocks one after the other.  \<open>ext_cmds\<close> is what
  each extension's calls add to the simulator's decoded log, and \<open>ext_sends\<close> is
  which commands an extension has a block for.
\<close>

section \<open>Extensions and the runtime's steps\<close>

datatype ext = DjiPhantom4 | DjiTello | ParrotMambo

fun ext_info :: "ext \<Rightarrow> extInfo" where
  "ext_info DjiPhantom4 = phantom4_getInfo"
| "ext_info DjiTello = tello_getInfo"
| "ext_info ParrotMambo = mambo_getInfo"

fun ext_new :: "ext \<Rightarrow> page \<Rightarrow> page" where
  "ext_new DjiPhantom4 = phantom4_new"
| "ext_new DjiTello = tello_new"
| "ext_new ParrotMambo = mambo_new"

fun ext_call :: "ext \<Rightarrow> call \<Rightarrow> page \<Rightarrow> page \<times> (js_error + js_result)" where
  "ext_call DjiPhantom4 = phantom4_call"
| "ext_call DjiTello = tello_call"
| "ext_call ParrotMambo = mambo_call"

record vm =
  vm_page :: page
  loaded :: "ext list"

text \<open>The page before any extension is loaded: both elements exist, nothing has been
  sent or instantiated and the globals the extensions assign are \<open>undefined\<close>.\<close>

definition host_ready :: "page \<Rightarrow> bool" where
  "host_ready p =
    (''scratch_stage'' \<in> dom (document p) \<and> ''gameContainer_drone'' \<in> dom (document p) \<and>
     sent p = [] \<and> djiTelloInstance p = None \<and> gameInstance p = None \<and>
     stage_calls p = [] \<and> stageId p = None \<and> droneFlag p = None)"

inductive vm_step :: "vm \<Rightarrow> vm \<Rightarrow> bool" where
  load: "e \<notin> set (loaded s) \<Longrightarrow>
    vm_step s \<lparr>vm_page = ext_new e (vm_page s), loaded = e # loaded s\<rparr>"
| run: "e \<in> set (loaded s) \<Longrightarrow> call_opcode c \<in> set (opcodes (ext_info e)) \<Longrightarrow>
    vm_step s (s\<lparr>vm_page := fst (ext_call e c (vm_page s))\<rparr>)"

inductive vm_reach :: "vm \<Rightarrow> bool" where
  init: "host_ready p \<Longrightarrow> vm_reach \<lparr>vm_page = p, loaded = []\<rparr>"
| step: "vm_reach s \<Longrightarrow> vm_step s t \<Longrightarrow> vm_reach t"

section \<open>The invariant\<close>

text \<open>The Unity instance each constructor creates: none for Phantom 4, whose
  \<open>UnityLoader.instantiate\<close> is commented out.\<close>

fun ext_unity :: "ext \<Rightarrow> unityInstance option" where
  "ext_unity DjiPhantom4 = None"
| "ext_unity DjiTello = Some (unity_instantiate ''djiTello_drone'' ''static/dji_tello/dji_tello.json'')"
| "ext_unity ParrotMambo = Some (unity_instantiate ''gameContainer_drone'' ''static/WebGL/WebGL.json'')"

text \<open>A message as the extensions send it: to \<open>Drones.Scratch3\<close>, with a value string
  that decodes to a command, which the simulator implements unless the message went
  through Mambo's instance.\<close>

definition msg_ok :: "message \<Rightarrow> bool" where
  "msg_ok msg =
    (game_object msg = ''Drones'' \<and> method_name msg = ''Scratch3'' \<and>
     (case decode_cmd (msg_value msg) of
        None \<Rightarrow> False
      | Some cmd \<Rightarrow> webgl_implements cmd \<or> Some (msg_instance msg) = ext_unity ParrotMambo))"

text \<open>The global \<open>stageId\<close> is the last value the page's \<open>changeStage\<close> was
  told, and every value it was told is a stage id of the three extensions.\<close>

definition stage_ok :: "page \<Rightarrow> bool" where
  "stage_ok p =
    ((if stage_calls p = [] then stageId p = None else stageId p = Some (last (stage_calls p))) \<and>
     set (stage_calls p) \<subseteq> {0, 1, 2})"

definition vm_inv :: "vm \<Rightarrow> bool" where
  "vm_inv s =
    ((DjiTello \<in> set (loaded s) \<longrightarrow> djiTelloInstance (vm_page s) = ext_unity DjiTello) \<and>
     (ParrotMambo \<in> set (loaded s) \<longrightarrow> gameInstance (vm_page s) = ext_unity ParrotMambo) \<and>
     ''scratch_stage'' \<in> dom (document (vm_page s)) \<and>
     ''gameContainer_drone'' \<in> dom (document (vm_page s)) \<and>
     list_all msg_ok (sent (vm_page s)) \<and> stage_ok (vm_page s))"

section \<open>Scripts\<close>

text \<open>What each extension's calls add to the simulator's decoded log: Phantom 4 nothing,
  Tello the commands of \<open>spec_cmd\<close> except for \<open>picture\<close>, Mambo all of them.\<close>

fun ext_cmds :: "ext \<Rightarrow> call \<Rightarrow> sim_cmd option list" where
  "ext_cmds DjiPhantom4 c = []"
| "ext_cmds DjiTello c = (if c = Picture then [] else spec_log c)"
| "ext_cmds ParrotMambo c = spec_log c"

text \<open>A script: blocks run one after the other on the page; a block that throws ends
  the script with its exception.\<close>

fun run_script :: "(ext \<times> call) list \<Rightarrow> page \<Rightarrow> page \<times> (js_error + js_result)" where
  "run_script [] pg = (pg, Inr Undefined)"
| "run_script ((e, c) # cs) pg =
     (case ext_call e c pg of
        (pg', Inl err) \<Rightarrow> (pg', Inl err)
      | (pg', Inr _) \<Rightarrow> run_script cs pg')"

text \<open>The commands an extension has a block for: none for Phantom 4, all but grab, shoot
  and picture for Tello, all for Mambo.\<close>

fun ext_sends :: "ext \<Rightarrow> sim_cmd \<Rightarrow> bool" where
  "ext_sends DjiPhantom4 cmd = False"
| "ext_sends DjiTello cmd = (case cmd of CmdGrab _ \<Rightarrow> False | CmdShoot \<Rightarrow> False | CmdPicture \<Rightarrow> False | _ \<Rightarrow> True)"
| "ext_sends ParrotMambo cmd = True"

section \<open>Each step keeps the invariant\<close>

lemma drone_msg_ok:
  "webgl_implements cmd \<or> Some u = ext_unity ParrotMambo \<Longrightarrow> msg_ok (drone_msg u cmd)"
  by (auto simp: msg_ok_def drone_msg_def decode_encode_cmd)

lemma ext_new_unity [page_simps]:
  "djiTelloInstance (tello_new pg) = ext_unity DjiTello"
  "gameInstance (mambo_new pg) = ext_unity ParrotMambo"
  by (simp_all add: tello_new_def mambo_new_def page_simps)

lemma mambo_call_sent:
  assumes "gameInstance pg = ext_unity ParrotMambo" and "call_opcode c \<in> set (opcodes mambo_getInfo)"
  shows "\<exists>ms. sent (fst (mambo_call c pg)) = sent pg @ ms \<and> list_all msg_ok ms"
proof (cases "spec_cmd c")
  case None
  with mambo_call_silent [OF None assms(2)] show ?thesis by auto
next
  case (Some cmd)
  from assms(1) obtain u where u: "gameInstance pg = Some u" and m: "Some u = ext_unity ParrotMambo"
    by auto
  from mambo_call_sends [OF u Some] m show ?thesis by (auto intro: drone_msg_ok)
qed

lemma tello_call_sent:
  assumes "djiTelloInstance pg \<noteq> None" and "call_opcode c \<in> set (opcodes tello_getInfo)"
  shows "\<exists>ms. sent (fst (tello_call c pg)) = sent pg @ ms \<and> list_all msg_ok ms"
proof (cases "spec_cmd c = None \<or> c = Picture")
  case True
  with tello_call_silent [OF True assms(2)] show ?thesis by auto
next
  case False
  then obtain cmd where cmd: "spec_cmd c = Some cmd" and np: "c \<noteq> Picture" by auto
  from assms(1) obtain u where "djiTelloInstance pg = Some u" by auto
  moreover have "c \<noteq> Shoot" using tello_has_method [OF assms(2)] by auto
  then have "webgl_implements cmd" by (rule spec_cmd_implemented [OF cmd np])
  ultimately show ?thesis
    using tello_call_sends [OF _ cmd np tello_has_method [OF assms(2)]] by (auto intro: drone_msg_ok)
qed

lemma stage_ok_cong:
  "stage_ok p \<Longrightarrow> stageId q = stageId p \<Longrightarrow> stage_calls q = stage_calls p \<Longrightarrow> stage_ok q"
  by (simp add: stage_ok_def)

lemma stage_ok_extend:
  "stage_ok p \<Longrightarrow> k \<in> {0, 1, 2} \<Longrightarrow> stageId q = Some k \<Longrightarrow> stage_calls q = stage_calls p @ [k] \<Longrightarrow> stage_ok q"
  by (auto simp: stage_ok_def)

lemma ext_call_stage_ok:
  assumes "stage_ok p"
  shows "stage_ok (fst (ext_call e c p))"
proof (cases e)
  case DjiPhantom4
  with assms show ?thesis by (auto intro: stage_ok_cong simp: page_simps)
next
  case DjiTello
  from tello_call_stage [of c p] assms DjiTello show ?thesis
    by (auto intro: stage_ok_cong stage_ok_extend)
next
  case ParrotMambo
  from mambo_call_stage [of c p] assms ParrotMambo show ?thesis
    by (auto intro: stage_ok_cong stage_ok_extend)
qed

lemma vm_inv_init: "host_ready p \<Longrightarrow> vm_inv \<lparr>vm_page = p, loaded = []\<rparr>"
  by (simp add: vm_inv_def host_ready_def stage_ok_def)

lemma ext_new_stage_ok: "stage_ok p \<Longrightarrow> stage_ok (ext_new e p)"
  by (cases e) (simp_all add: stage_ok_def page_simps)

lemma vm_inv_load:
  assumes "vm_inv s"
  shows "vm_inv \<lparr>vm_page = ext_new e (vm_page s), loaded = e # loaded s\<rparr>"
proof -
  have "stage_ok (ext_new e (vm_page s))"
    using assms by (simp add: vm_inv_def ext_new_stage_ok)
  with assms show ?thesis by (cases e) (simp_all add: vm_inv_def page_simps)
qed

lemma ext_call_frame:
  "djiTelloInstance (fst (ext_call e c p)) = djiTelloInstance p"
  "gameInstance (fst (ext_call e c p)) = gameInstance p"
  "dom (document (fst (ext_call e c p))) = dom (document p)"
  by (cases e; simp add: page_simps)+

lemma ext_call_sent:
  assumes "vm_inv s" and "e \<in> set (loaded s)" and "call_opcode c \<in> set (opcodes (ext_info e))"
  shows "\<exists>ms. sent (fst (ext_call e c (vm_page s))) = sent (vm_page s) @ ms \<and> list_all msg_ok ms"
proof (cases e)
  case DjiPhantom4
  then show ?thesis by (simp add: page_simps)
next
  case DjiTello
  with assms show ?thesis by (simp add: vm_inv_def tello_call_sent)
next
  case ParrotMambo
  with assms show ?thesis by (simp add: vm_inv_def mambo_call_sent)
qed

lemma vm_inv_run:
  assumes "vm_inv s" and "e \<in> set (loaded s)" and "call_opcode c \<in> set (opcodes (ext_info e))"
  shows "vm_inv (s\<lparr>vm_page := fst (ext_call e c (vm_page s))\<rparr>)"
proof -
  have st: "stage_ok (fst (ext_call e c (vm_page s)))"
    using assms(1) ext_call_stage_ok by (simp add: vm_inv_def)
  obtain ms where ms: "sent (fst (ext_call e c (vm_page s))) = sent (vm_page s) @ ms"
    and ok: "list_all msg_ok ms"
    using ext_call_sent [OF assms] by blast
  show ?thesis
    using assms(1) st ms ok by (simp add: vm_inv_def ext_call_frame)
qed

lemma vm_step_inv: "vm_step s t \<Longrightarrow> vm_inv s \<Longrightarrow> vm_inv t"
proof (induction rule: vm_step.induct)
  case (load e s)
  show ?case by (rule vm_inv_load [OF load.prems])
next
  case (run e s c)
  show ?case by (rule vm_inv_run [OF run.prems run.hyps])
qed

lemma vm_reach_inv: "vm_reach s \<Longrightarrow> vm_inv s"
proof (induction rule: vm_reach.induct)
  case (init p)
  then show ?case by (rule vm_inv_init)
next
  case (step s t)
  show ?case by (rule vm_step_inv [OF step.hyps(2) step.IH])
qed

text \<open>Phantom 4 calls do not throw while both elements are on the page.\<close>

lemma phantom4_call_no_throw:
  assumes "''scratch_stage'' \<in> dom (document pg)" and "''gameContainer_drone'' \<in> dom (document pg)"
    and "call_opcode c \<in> set (opcodes phantom4_getInfo)"
  shows "\<exists>v. snd (phantom4_call c pg) = Inr v"
proof -
  from assms(1,2) obtain e1 e2 where e1: "document pg ''scratch_stage'' = Some e1"
    and e2: "document pg ''gameContainer_drone'' = Some e2" by auto
  have cs: "\<exists>pg'. phantom4_changeStage m pg = (pg', Inr ())" for m
    using e1 e2 by (simp add: phantom4_changeStage_def js_then_def set_elem_def)
  show ?thesis
  proof (cases c)
    case (ChangeStage m)
    with cs [of m] show ?thesis by (auto simp: cmd_result_def)
  qed (use assms(3) in \<open>simp_all add: phantom4_handler_defs cmd_result_def Let_def opcodes_phantom4\<close>)
qed

lemma ext_call_no_throw:
  assumes "vm_inv s" and "e \<in> set (loaded s)" and "call_opcode c \<in> set (opcodes (ext_info e))"
  shows "\<exists>v. snd (ext_call e c (vm_page s)) = Inr v"
proof (cases e)
  case DjiPhantom4
  with assms show ?thesis by (simp add: vm_inv_def phantom4_call_no_throw)
next
  case DjiTello
  with assms obtain u where u: "djiTelloInstance (vm_page s) = Some u" by (auto simp: vm_inv_def)
  show ?thesis
  proof (cases "spec_cmd c = None \<or> c = Picture")
    case True
    with DjiTello assms(3) show ?thesis using tello_call_silent by simp
  next
    case False
    then obtain cmd where "spec_cmd c = Some cmd" "c \<noteq> Picture" by auto
    with DjiTello assms(3) u show ?thesis using tello_call_sends tello_has_method by simp
  qed
next
  case ParrotMambo
  with assms obtain u where u: "gameInstance (vm_page s) = Some u" by (auto simp: vm_inv_def)
  show ?thesis
  proof (cases "spec_cmd c")
    case None
    with ParrotMambo assms(3) show ?thesis using mambo_call_silent by simp
  next
    case (Some cmd)
    with ParrotMambo u show ?thesis using mambo_call_sends by simp
  qed
qed

text \<open>Seen by the simulator, a call of a loaded extension adds exactly that extension's
  commands for it.\<close>

lemma ext_call_log:
  assumes "vm_inv s" and "e \<in> set (loaded s)" and "call_opcode c \<in> set (opcodes (ext_info e))"
  shows "cmd_log (sent (fst (ext_call e c (vm_page s)))) = cmd_log (sent (vm_page s)) @ ext_cmds e c"
proof (cases e)
  case DjiPhantom4
  then show ?thesis by (simp add: page_simps)
next
  case DjiTello
  with assms obtain u where u: "djiTelloInstance (vm_page s) = Some u" by (auto simp: vm_inv_def)
  show ?thesis
  proof (cases "spec_cmd c = None \<or> c = Picture")
    case True
    with DjiTello assms(3) show ?thesis using tello_call_silent by (auto simp: spec_log_def)
  next
    case False
    then obtain cmd where "spec_cmd c = Some cmd" "c \<noteq> Picture" by auto
    with DjiTello assms(3) u show ?thesis
      using tello_call_sends tello_has_method by (simp add: spec_log_def cmd_log_append_drone_msg)
  qed
next
  case ParrotMambo
  with assms obtain u where u: "gameInstance (vm_page s) = Some u" by (auto simp: vm_inv_def)
  show ?thesis
  proof (cases "spec_cmd c")
    case None
    with ParrotMambo assms(3) show ?thesis using mambo_call_silent by (simp add: spec_log_def)
  next
    case (Some cmd)
    with ParrotMambo u show ?thesis
      using mambo_call_sends by (simp add: spec_log_def cmd_log_append_drone_msg)
  qed
qed

text \<open>Each command an extension has a block for is sent by the block \<open>call_for\<close>
  gives, which is in that extension's catalog; a Tello call meant to send a command sends
  one Tello has a block for.\<close>

lemma call_for_opcode: "call_opcode (call_for cmd) \<in> set (opcodes mambo_getInfo)"
proof (cases cmd)
  case (CmdAxis ax v)
  then show ?thesis by (cases ax) (simp_all add: opcodes_mambo)
qed (simp_all add: opcodes_mambo)

lemma call_for_tello:
  "ext_sends DjiTello cmd \<Longrightarrow> call_opcode (call_for cmd) \<in> set (opcodes tello_getInfo) \<and> call_for cmd \<noteq> Picture"
proof (cases cmd)
  case (CmdAxis ax v)
  then show ?thesis by (cases ax) (simp_all add: opcodes_tello)
qed (simp_all add: opcodes_tello)

lemma ext_cmds_call_for:
  assumes "ext_sends e cmd" and "cmd_in_range cmd"
  shows "ext_cmds e (call_for cmd) = [Some cmd] \<and> call_opcode (call_for cmd) \<in> set (opcodes (ext_info e))"
proof (cases e)
  case DjiTello
  with assms call_for_tello show ?thesis by (simp add: spec_log_def spec_cmd_call_for)
next
  case ParrotMambo
  with assms show ?thesis by (simp add: spec_log_def spec_cmd_call_for call_for_opcode)
qed (use assms in simp)

lemma tello_spec_sends:
  "spec_cmd c = Some cmd \<Longrightarrow> c \<noteq> Picture \<Longrightarrow> call_opcode c \<notin> {''grab'', ''shoot''} \<Longrightarrow> ext_sends DjiTello cmd"
  by (cases c) auto

text \<open>A run from the page as loaded: load the Tello extension, then call
  \<open>set_gaz\<close> going down at 150.\<close>

text \<open>The footprint of a Tello or Mambo call other than \<open>changeStage\<close>, through the
  runtime's dispatch.\<close>

lemma ext_call_confined:
  assumes "e \<noteq> DjiPhantom4" and "\<forall>m. c \<noteq> ChangeStage m"
  shows "fst (ext_call e c pg) = pg\<lparr>sent := sent (fst (ext_call e c pg))\<rparr>"
proof (cases e)
  case DjiTello
  show ?thesis unfolding DjiTello ext_call.simps by (rule tello_call_confined [OF assms(2)])
next
  case ParrotMambo
  show ?thesis unfolding ParrotMambo ext_call.simps by (rule mambo_call_confined [OF assms(2)])
qed (use assms in simp)

lemma ext_call_indep:
  assumes "e \<noteq> DjiPhantom4" and "\<forall>m. c \<noteq> ChangeStage m"
  shows "ext_call e c (pg\<lparr>document := d, droneFlag := f\<rparr>) =
     ((fst (ext_call e c pg))\<lparr>document := d, droneFlag := f\<rparr>, snd (ext_call e c pg))"
proof (cases e)
  case DjiTello
  show ?thesis unfolding DjiTello ext_call.simps by (rule tello_call_indep [OF assms(2)])
next
  case ParrotMambo
  show ?thesis unfolding ParrotMambo ext_call.simps by (rule mambo_call_indep [OF assms(2)])
qed (use assms in simp)

text \<open>Reachable states are built from the ready page by loading and running.\<close>

lemma vm_reach_blank: "vm_reach \<lparr>vm_page = blank_page, loaded = []\<rparr>"
  by (rule vm_reach.init) (simp add: host_ready_def blank_page_def)

lemma vm_reach_load:
  "vm_reach s \<Longrightarrow> e \<notin> set (loaded s) \<Longrightarrow>
   vm_reach \<lparr>vm_page = ext_new e (vm_page s), loaded = e # loaded s\<rparr>"
  by (erule vm_reach.step) (rule vm_step.load)

lemma vm_reach_run:
  "vm_reach s \<Longrightarrow> e \<in> set (loaded s) \<Longrightarrow> call_opcode c \<in> set (opcodes (ext_info e)) \<Longrightarrow>
   vm_reach (s\<lparr>vm_page := fst (ext_call e c (vm_page s))\<rparr>)"
  by (erule vm_reach.step) (rule vm_step.run)

lemma vm_reach_example:
  "vm_reach \<lparr>vm_page = fst (tello_call (SetGaz s_down 150) (tello_new blank_page)),
             loaded = [DjiTello]\<rparr>"
  using vm_reach_run [OF vm_reach_load [OF vm_reach_blank, of DjiTello], of DjiTello "SetGaz s_down 150"]
  by (simp add: opcodes_tello)

end
