(* ===== verification/Spec2Isabelle.thy ===== *)
theory Spec2Isabelle
  imports Runtime
begin

text \<open>
  A verification development of the three drone extensions of this Scratch 3.0 VM:
  \<open>src/src/extensions/scratch3_dji_phantom4/index.js\<close> (class \<open>DjiPhantom4Blocks\<close>),
  \<open>src/src/extensions/scratch3_dji_tello/index.js\<close> (\<open>DjiTelloBlocks\<close>) and
  \<open>src/src/extensions/scratch3_parrot_mambo/index.js\<close> (\<open>ParrotMamboBlocks\<close>).

  \<^bold>\<open>The program.\<close>  Each extension is a class whose \<open>getInfo()\<close> returns a block
  catalog and whose methods are the blocks' handlers.  The Scratch runtime constructs
  the class when the extension is loaded and then calls a handler by its block's opcode
  with an \<open>args\<close> object.  The handlers drive a Unity WebGL drone simulator embedded
  in the hosting page: the Tello and Mambo command handlers build a value string
  \<open>"0,<code>,..."\<close> and send it with \<open>SendMessage("Drones", "Scratch3", value)\<close> on
  the Unity instance their constructor created.  \<open>changeStage\<close> switches between the
  Scratch stage and the simulator, by the page's global \<open>changeStage(n)\<close> (Tello,
  Mambo) or by writing the DOM (Phantom 4).  In the Phantom 4 class every
  \<open>SendMessage\<close> is commented out.

  \<^bold>\<open>The theories.\<close>
  \<^item> \<open>Prelude\<close>: the JavaScript idioms the handlers share.  These are UTF-8 string
    literals (\<open>utf8\<close>), the clamp \<open>n > 100 ? 100 : n\<close> (\<open>js_clamp_hi\<close>), the
    direction sign (\<open>js_sign\<close>), Number-to-String (\<open>js_num_str\<close>) with its parser,
    \<open>split_on\<close>/\<open>join_with\<close>, and \<open>js_then\<close>, the sequencing of statements that
    may throw.  It also holds their lemmas: round trips of numbers and of split/join.
  \<^item> \<open>Catalog\<close>: the three \<open>getInfo\<close> results (\<open>phantom4_getInfo\<close>,
    \<open>tello_getInfo\<close>, \<open>mambo_getInfo\<close>), built from one definition per block
    (\<open>b_changeStage\<close> ... \<open>b_move\<close>) and the menus.  \<open>opcodes\<close> lists the
    opcodes the runtime dispatches by.
  \<^item> \<open>Host\<close>: the hosting page as a record \<open>page\<close>.  It holds the globals
    \<open>stageId\<close>, \<open>droneFlag\<close> and \<open>id\<close>, the two DOM elements, the two Unity
    instances, the log of \<open>changeStage(n)\<close> arguments and the log of sent messages.
    \<open>send_message\<close> and \<open>set_elem\<close> throw the browser's TypeError on a missing
    object: reading \<open>style\<close> of null (\<open>null_read\<close>) for \<open>x.style.display = ...\<close>,
    setting \<open>height\<close>/\<open>width\<close> of null (\<open>null_set\<close>) for \<open>x.height = ...\<close>.
    \<open>page_changeStage\<close> only records its argument: what the page's \<open>changeStage(n)\<close>
    does to the DOM is not modelled, and no property depends on it.  \<open>call\<close> is the datatype of
    the runtime's calls, one constructor per opcode.
  \<^item> \<open>Protocol\<close>: the simulator commands \<open>sim_cmd\<close>, the wire format the handlers
    write (\<open>encode_cmd\<close>) and a decoder (\<open>decode_cmd\<close>).  \<open>spec_cmd\<close> is the
    command a call is meant to send.  The decoder is the specification the handlers are
    checked against; \<open>decode_encode_cmd\<close> proves it inverts the format.
    \<open>cmd_in_range\<close> gives the ranges the blocks are meant for, and \<open>call_for\<close>
    gives a block call meant to send a given command.  \<open>webgl_implements\<close> marks the
    commands the WebGL build implements: by the comments of \<open>picture\<close> and
    \<open>shoot\<close> in the Mambo source, not \<open>0,6\<close> and \<open>0,7\<close>.  \<open>spec_cmd\<close> copies
    the code's upper-only clamp, so that the refinements are exact; C9 and the findings
    state where it departs from the spec's \<open>[-100, 100]\<close>.
  \<^item> \<open>Phantom4\<close>, \<open>Tello\<close>, \<open>Mambo\<close>: each class has its constructor
    (\<open>*_new\<close>), one definition per method in the order of the source file
    (\<open>*_changeStage\<close>, \<open>*_reset\<close>, ..., \<open>*_pitch_roll_yaw_gaz\<close>) and the dispatch
    \<open>*_call\<close>.  A handler maps a page to the updated page and \<open>Inr\<close> its result,
    or \<open>Inl\<close> the exception it throws.  An opcode without a method throws
    "is not a function" (\<open>not_a_function\<close>).
  \<^item> \<open>Runtime\<close>: the three extensions in one page.  \<open>vm_step\<close> either loads an
    extension (runs its constructor) or runs any block of a loaded extension's catalog.
    Both steps happen in any order, interleaved across extensions.  \<open>vm_reach\<close> is
    reachability from a ready page, and \<open>vm_inv\<close> the invariant proved by rule
    induction (\<open>vm_reach_inv\<close>).  \<open>run_script\<close> runs a list of blocks in order,
    and \<open>ext_cmds\<close> gives the commands each extension's calls add to the simulator's
    decoded log.
  \<^item> this theory: the properties that span components.

  \<^bold>\<open>What is proved\<close> (claims C1-C21).
  \<^item> Mambo and Tello against the specification (C1-C2, refinements).  Seen through the
    decoder, every Mambo call of its catalog adds exactly \<open>spec_cmd\<close>'s command and
    never throws once \<open>gameInstance\<close> exists (C1).  Tello does the same, except that
    \<open>picture\<close> sends nothing (C2).
  \<^item> Phantom 4 (C3-C5): it never sends anything (C3).  Its \<open>changeStage\<close> switches
    the page as intended when both elements exist (C4), and half-switches it before
    throwing when the drone container is missing (C5).
  \<^item> Whole runtime (C6-C8): in every reachable state every sent message is addressed
    to \<open>Drones.Scratch3\<close>, decodes, and is a command the WebGL build implements
    unless Mambo sent it (C6); no catalog block of a loaded extension throws (C7); and
    \<open>stageId\<close> is the last stage given to the page, always 0, 1 or 2 (C8).
  \<^item> Bounds (C9): the velocity clamp bounds speeds from above only.
  \<^item> Dispatch and agreement (C10-C11).  A call throws "is not a function" exactly when
    its opcode is outside the catalog (C10).  Tello and Mambo send identical strings on
    their shared opcodes but \<open>picture\<close> (C11).
  \<^item> The message log (C12): each runtime step keeps the log and appends at most one
    message.
  \<^item> Scripts (C13): a script of blocks of loaded extensions (\<open>run_script\<close>) never
    throws, and the simulator receives exactly the concatenation of the commands its
    blocks are meant to send, in order (a refinement over whole runs).
  \<^item> The stage flag (C14): in every reachable state of a page on which only Phantom 4
    is loaded, \<open>droneFlag\<close> agrees with which of the two elements the page displays.
    Tello's and Mambo's \<open>changeStage\<close> hand the DOM to the page, which is not
    modelled, so runs that load them are excluded.
  \<^item> Phantom 4 stage switching (C15): with both elements present, switching to the
    standard stage undoes any earlier switch.
  \<^item> What can be sent (C16-C17).  C16 is liveness: from every reachable state, every
    in-range command a loaded extension has a block for (\<open>ext_sends\<close>) can be sent
    in one step.  C17 is the converse for Tello: it never sends grab, shoot or picture.
  \<^item> Values outside a menu (C18): they take the handlers' default branches.  A direction
    counts as positive, flip and grab send code 0, and \<open>changeStage\<close> does nothing.
  \<^item> Routing (C19): in every reachable state a call of a loaded extension sends only
    through the Unity instance that extension's constructor created (\<open>ext_unity\<close>).
  \<^item> Errors of Phantom 4 (C20): \<open>changeStage\<close> throws exactly when its item is a stage
    item and an element is missing.
  \<^item> Interleaving (C21): a Phantom 4 block commutes with a Tello or Mambo block other
    than \<open>changeStage\<close>.  The proof is by footprint lemmas in the style of confinement:
    each call writes only its own fields of the page and reads none of the other's.

  \<^bold>\<open>Modelling choices.\<close>
  \<^item> JavaScript numbers passed as block arguments are integers (\<open>int\<close>).  The
    handlers only compare, negate, multiply by small constants and print them.
    On safe integers (magnitude at most \<open>2^53 - 1\<close>) JavaScript's arithmetic is
    exact, and \<open>toString\<close> prints plain digits as \<open>js_num_str\<close> does; larger,
    fractional and non-numeric arguments are not modelled.
  \<^item> String comparisons \<open>args.m == "..."\<close> are equality of UTF-8 strings.
  \<^item> The program has no loops: every handler is straight-line code with a
    \<open>switch\<close> or an \<open>if\<close> at most.  So no fuel is needed and there is no
    termination property to state.  All definitions are total (\<open>nat_str\<close> by
    well-founded recursion on the number, \<open>run_script\<close> by structural recursion on
    the script) and executable.
  \<^item> A throw keeps the mutations made before it (\<open>js_then\<close>), as in JavaScript.

  \<^bold>\<open>Not modelled.\<close>
  \<^item> The block icons: \<open>blockIconURI\<close> is a single constant base64 SVG literal
    of several kilobytes with no behaviour; \<open>getInfo\<close> passes it through.
  \<^item> The imports the handlers never use (\<open>log\<close>, \<open>cast\<close>, \<open>formatMessage\<close>, BLE,
    \<open>Base64Util\<close>).  Apart from these, the icon, the doc comments and the
    \<open>module.exports\<close> lines, every line of the three source files is translated by a
    definition of this development.  The extensions have no other code left to model.
  \<^item> The simulator itself, and the page's own reaction to \<open>changeStage(n)\<close>.  These
    are external programs: the model records what the extensions ask of them, not
    what those programs do.
  \<^item> The Scratch runtime's block scheduling beyond the step relation \<open>vm_step\<close>
    and the sequential scripts of \<open>run_script\<close>.
  \<^item> The hosting page is assumed to define the global \<open>changeStage(n)\<close> and the two
    elements before an extension loads (\<open>host_ready\<close>).  Calls on a page without
    them are modelled as the TypeErrors of \<open>send_message\<close> and \<open>set_elem\<close>.  A
    missing \<open>changeStage\<close> global would throw a ReferenceError; that case is not
    modelled.
\<close>

section \<open>Properties of the extensions running together\<close>

text \<open>C6: in every reachable state of the page, whichever extensions were loaded and in
  whatever order their blocks ran, every message sent so far goes to
  \<open>Drones.Scratch3\<close> and its value string decodes to a simulator command.  That
  command is one the WebGL simulator implements, unless the message went through
  Mambo's Unity instance: only Mambo's picture and shoot send commands the handlers'
  comments say the simulator lacks, and Tello never does.\<close>

theorem vm_sent_accepted:
  assumes "vm_reach s" and "msg \<in> set (sent (vm_page s))"
  shows "game_object msg = ''Drones'' \<and> method_name msg = ''Scratch3'' \<and>
         (\<exists>cmd. decode_cmd (msg_value msg) = Some cmd \<and>
                (webgl_implements cmd \<or> Some (msg_instance msg) = ext_unity ParrotMambo))"
proof -
  from assms(1) have "list_all msg_ok (sent (vm_page s))"
    by (simp add: vm_reach_inv [THEN vm_inv_def [THEN iffD1]])
  with assms(2) have "msg_ok msg" by (simp add: list_all_iff)
  then show ?thesis by (auto simp: msg_ok_def split: option.splits)
qed

theorem vm_sent_accepted_witness:
  "vm_reach \<lparr>vm_page = fst (mambo_call Picture (mambo_new blank_page)), loaded = [ParrotMambo]\<rparr> \<and>
   drone_msg (unity_instantiate ''gameContainer_drone'' ''static/WebGL/WebGL.json'') CmdPicture
     \<in> set (sent (fst (mambo_call Picture (mambo_new blank_page)))) \<and>
   decode_cmd (msg_value (drone_msg (unity_instantiate ''gameContainer_drone'' ''static/WebGL/WebGL.json'')
     CmdPicture)) = Some CmdPicture \<and> \<not> webgl_implements CmdPicture"
proof -
  let ?s = "\<lparr>vm_page = fst (mambo_call Picture (mambo_new blank_page)), loaded = [ParrotMambo]\<rparr>"
  let ?m = "drone_msg (unity_instantiate ''gameContainer_drone'' ''static/WebGL/WebGL.json'') CmdPicture"
  have r: "vm_reach ?s"
    using vm_reach_run [OF vm_reach_load [OF vm_reach_blank, of ParrotMambo], of ParrotMambo Picture]
    by (simp add: opcodes_mambo)
  have m: "?m \<in> set (sent (vm_page ?s))"
    by (simp add: mambo_picture_def mambo_new_def page_simps blank_page_def drone_msg_def
                  encode_cmd_simps)
  show ?thesis using vm_sent_accepted [OF r m] r m by (auto simp: drone_msg_def decode_encode_cmd)
qed

text \<open>C7: in every reachable state, a call of an opcode of a loaded extension's catalog
  does not throw: the Unity instance a Tello or Mambo handler sends through exists once
  its extension is loaded, and the elements Phantom 4 writes are never removed.\<close>

theorem vm_no_throw:
  assumes "vm_reach s" and "e \<in> set (loaded s)" and "call_opcode c \<in> set (opcodes (ext_info e))"
  shows "\<exists>v. snd (ext_call e c (vm_page s)) = Inr v"
  using ext_call_no_throw [OF vm_reach_inv [OF assms(1)] assms(2,3)] .

theorem vm_no_throw_witness:
  "vm_reach \<lparr>vm_page = fst (tello_call (SetGaz s_down 150) (tello_new blank_page)),
             loaded = [DjiTello]\<rparr> \<and>
   DjiTello \<in> set [DjiTello] \<and> call_opcode Reset \<in> set (opcodes (ext_info DjiTello)) \<and>
   (\<exists>v. snd (ext_call DjiTello Reset (fst (tello_call (SetGaz s_down 150) (tello_new blank_page)))) = Inr v)"
proof -
  have o: "call_opcode Reset \<in> set (opcodes (ext_info DjiTello))" by (simp add: opcodes_tello)
  have l: "DjiTello \<in> set (loaded \<lparr>vm_page = fst (tello_call (SetGaz s_down 150) (tello_new blank_page)),
             loaded = [DjiTello]\<rparr>)" by simp
  show ?thesis using vm_no_throw [OF vm_reach_example l o] vm_reach_example o by simp
qed

text \<open>C8: in every reachable state the global \<open>stageId\<close> is the stage the page's
  \<open>changeStage\<close> was last told (undefined before any call), and only the stage ids
  0 (standard), 1 (Mambo simulator) and 2 (Tello simulator) are ever passed to it.\<close>

theorem vm_stage_consistent:
  assumes "vm_reach s"
  shows "stageId (vm_page s) =
           (if stage_calls (vm_page s) = [] then None else Some (last (stage_calls (vm_page s)))) \<and>
         set (stage_calls (vm_page s)) \<subseteq> {0, 1, 2}"
proof -
  from assms have "stage_ok (vm_page s)"
    by (simp add: vm_reach_inv [THEN vm_inv_def [THEN iffD1]])
  then show ?thesis by (simp add: stage_ok_def split: if_splits)
qed

theorem vm_stage_consistent_witness:
  "vm_reach \<lparr>vm_page = fst (tello_call (SetGaz s_down 150) (tello_new blank_page)),
             loaded = [DjiTello]\<rparr> \<and>
   stageId (fst (tello_call (SetGaz s_down 150) (tello_new blank_page))) = Some 2"
proof -
  have "stageId (fst (tello_call (SetGaz s_down 150) (tello_new blank_page))) =
        (if stage_calls (fst (tello_call (SetGaz s_down 150) (tello_new blank_page))) = [] then None
         else Some (last (stage_calls (fst (tello_call (SetGaz s_down 150) (tello_new blank_page))))))"
    using vm_stage_consistent [OF vm_reach_example] by simp
  moreover have "stage_calls (fst (tello_call (SetGaz s_down 150) (tello_new blank_page))) = [2]"
    by (simp add: tello_set_gaz_def page_simps blank_page_def Let_def)
  ultimately show ?thesis using vm_reach_example by simp
qed

section \<open>Dispatch, agreement and menus\<close>

text \<open>C10: each extension's class and its catalog agree: a call throws "is not a
  function" exactly when its opcode is not in the extension's catalog, on any page.  So
  every block the catalog offers has a method, and no method is left without a block
  except through this error (Tello's missing \<open>grab\<close> and \<open>shoot\<close>, Mambo's and
  Phantom 4's missing \<open>searchColor\<close>, \<open>face\<close> and \<open>move\<close>).\<close>

theorem ext_call_not_a_function:
  "(snd (ext_call e c pg) = Inl (TypeError (call_opcode c @ '' is not a function''))) =
   (call_opcode c \<notin> set (opcodes (ext_info e)))"
proof (cases e)
  case DjiPhantom4
  then show ?thesis
  proof (cases c)
    case (ChangeStage m)
    with DjiPhantom4 show ?thesis using phantom4_changeStage_result [of m pg]
      by (auto simp: cmd_result_Inl opcodes_phantom4 null_read_def)
  qed (simp_all add: opcodes_phantom4 phantom4_handler_defs cmd_result_def Let_def
                     not_a_function_def)
next
  case DjiTello
  then show ?thesis
    by (cases c) (simp_all add: opcodes_tello tello_handler_defs cmd_result_Inl Let_def
                                not_a_function_def send_message_Inl)
next
  case ParrotMambo
  then show ?thesis
    by (cases c) (simp_all add: opcodes_mambo mambo_handler_defs cmd_result_Inl Let_def
                                not_a_function_def send_message_Inl)
qed

text \<open>C11: on the opcodes both catalogs offer, except \<open>picture\<close>, the Tello and the
  Mambo extension send the same value strings and return the same results, once each
  has its Unity instance.\<close>

theorem tello_mambo_agree:
  assumes "djiTelloInstance pg = Some u" and "gameInstance pg = Some u'"
    and "call_opcode c \<in> set (opcodes tello_getInfo)"
    and "call_opcode c \<in> set (opcodes mambo_getInfo)" and "c \<noteq> Picture"
  shows "map msg_value (sent (fst (tello_call c pg))) = map msg_value (sent (fst (mambo_call c pg))) \<and>
         snd (tello_call c pg) = snd (mambo_call c pg)"
proof (cases "spec_cmd c")
  case None
  then show ?thesis using assms(3-5)
    by (cases c) (simp_all add: opcodes_tello opcodes_mambo tello_changeStage_def
                                mambo_changeStage_def Let_def page_simps)
next
  case (Some cmd)
  have t: "call_opcode c \<notin> {''grab'', ''shoot''}" using tello_has_method [OF assms(3)] .
  show ?thesis
    using tello_call_sends [OF assms(1) Some assms(5) t] mambo_call_sends [OF assms(2) Some]
    by (simp add: drone_msg_def)
qed

theorem tello_mambo_agree_witness:
  "djiTelloInstance (mambo_new (tello_new blank_page)) \<noteq> None \<and>
   gameInstance (mambo_new (tello_new blank_page)) \<noteq> None \<and>
   call_opcode (Flip s_back) \<in> set (opcodes tello_getInfo) \<and>
   call_opcode (Flip s_back) \<in> set (opcodes mambo_getInfo) \<and>
   map msg_value (sent (fst (tello_call (Flip s_back) (mambo_new (tello_new blank_page))))) =
     [''0,210,2''] \<and>
   map msg_value (sent (fst (mambo_call (Flip s_back) (mambo_new (tello_new blank_page))))) =
     [''0,210,2'']"
proof -
  let ?pg = "mambo_new (tello_new blank_page)"
  have u: "djiTelloInstance ?pg = Some (unity_instantiate ''djiTello_drone'' ''static/dji_tello/dji_tello.json'')"
    by (simp add: mambo_new_def tello_new_def page_simps)
  have u': "gameInstance ?pg = Some (unity_instantiate ''gameContainer_drone'' ''static/WebGL/WebGL.json'')"
    by (simp add: mambo_new_def page_simps)
  have o: "call_opcode (Flip s_back) \<in> set (opcodes tello_getInfo)"
          "call_opcode (Flip s_back) \<in> set (opcodes mambo_getInfo)"
    by (simp_all add: opcodes_tello opcodes_mambo)
  have m: "map msg_value (sent (fst (mambo_call (Flip s_back) ?pg))) = [''0,210,2'']"
    using u' by (simp add: mambo_flip_def flip_code_def menu_item_defs lit_simps page_simps blank_page_def
                           js_num_str_def nat_str.simps digit_char_def)
  show ?thesis
    using tello_mambo_agree [OF u u' o] m u u' o by simp
qed

section \<open>The message log over a run\<close>



text \<open>C13: refinement of whole scripts.  From any reachable state, a script of blocks of
  loaded extensions, run one after the other, never throws, and the simulator's decoded
  log grows by exactly the concatenation of the commands each block is meant to send
  (Tello's \<open>picture\<close> and all of Phantom 4 adding none), in script order.\<close>

theorem run_script_refines:
  assumes "vm_reach s"
    and "list_all (\<lambda>(e, c). e \<in> set (loaded s) \<and> call_opcode c \<in> set (opcodes (ext_info e))) cs"
  shows "cmd_log (sent (fst (run_script cs (vm_page s)))) =
           cmd_log (sent (vm_page s)) @ concat (map (\<lambda>(e, c). ext_cmds e c) cs) \<and>
         snd (run_script cs (vm_page s)) = Inr Undefined"
  using assms
proof (induction cs arbitrary: s)
  case Nil
  then show ?case by simp
next
  case (Cons ec cs)
  obtain e c where ec: "ec = (e, c)" by fastforce
  with Cons.prems have l: "e \<in> set (loaded s)" and o: "call_opcode c \<in> set (opcodes (ext_info e))"
    and rest: "list_all (\<lambda>(e, c). e \<in> set (loaded s) \<and> call_opcode c \<in> set (opcodes (ext_info e))) cs"
    by auto
  have inv: "vm_inv s" using vm_reach_inv [OF Cons.prems(1)] .
  obtain v where v: "snd (ext_call e c (vm_page s)) = Inr v"
    using ext_call_no_throw [OF inv l o] by blast
  let ?t = "s\<lparr>vm_page := fst (ext_call e c (vm_page s))\<rparr>"
  have t: "vm_reach ?t" using vm_reach_run [OF Cons.prems(1) l o] .
  have "list_all (\<lambda>(e, c). e \<in> set (loaded ?t) \<and> call_opcode c \<in> set (opcodes (ext_info e))) cs"
    using rest by simp
  note ih = Cons.IH [OF t this]
  have run: "run_script (ec # cs) (vm_page s) = run_script cs (vm_page ?t)"
    using v ec by (cases "ext_call e c (vm_page s)") simp
  show ?case using ih ext_call_log [OF inv l o] ec run by simp
qed

theorem run_script_refines_witness:
  "vm_reach \<lparr>vm_page = fst (tello_call (SetGaz s_down 150) (tello_new blank_page)),
             loaded = [DjiTello]\<rparr> \<and>
   cmd_log (sent (fst (run_script [(DjiTello, Takeoff), (DjiTello, SetYaw s_left_turn 30)]
                         (fst (tello_call (SetGaz s_down 150) (tello_new blank_page)))))) =
     [Some (CmdAxis AxGaz (-100)), Some CmdTakeOff, Some (CmdAxis AxYaw (-30))]"
proof -
  let ?s = "\<lparr>vm_page = fst (tello_call (SetGaz s_down 150) (tello_new blank_page)),
             loaded = [DjiTello]\<rparr>"
  have l: "list_all (\<lambda>(e, c). e \<in> set (loaded ?s) \<and> call_opcode c \<in> set (opcodes (ext_info e)))
             [(DjiTello, Takeoff), (DjiTello, SetYaw s_left_turn 30)]"
    by (simp add: opcodes_tello)
  have "sent (fst (tello_call (SetGaz s_down 150) (tello_new blank_page))) = [] @ [drone_msg (unity_instantiate ''djiTello_drone''
          ''static/dji_tello/dji_tello.json'') (CmdAxis AxGaz (-100))]"
    by (simp add: tello_set_gaz_def tello_new_def page_simps blank_page_def drone_msg_def
                  cmd_simps velocity_js [symmetric] js_sign_def js_clamp_hi_def)
  then have d: "cmd_log (sent (fst (tello_call (SetGaz s_down 150) (tello_new blank_page)))) =
                [Some (CmdAxis AxGaz (-100))]"
    by (simp only: cmd_log_append_drone_msg) (simp add: cmd_log_def)
  have c: "concat (map (\<lambda>(e, c). ext_cmds e c) [(DjiTello, Takeoff), (DjiTello, SetYaw s_left_turn 30)]) =
           [Some CmdTakeOff, Some (CmdAxis AxYaw (-30))]"
    by (simp add: spec_log_def velocity_def)
  have "cmd_log (sent (fst (run_script [(DjiTello, Takeoff), (DjiTello, SetYaw s_left_turn 30)] (vm_page ?s)))) =
        cmd_log (sent (vm_page ?s)) @
        concat (map (\<lambda>(e, c). ext_cmds e c) [(DjiTello, Takeoff), (DjiTello, SetYaw s_left_turn 30)])"
    using run_script_refines [OF vm_reach_example l] by (rule conjunct1)
  then show ?thesis using vm_reach_example by (simp only: d c vm.select_convs append_Cons append_Nil simp_thms)
qed

text \<open>C14: in every reachable state of a page on which only Phantom 4 is loaded, the
  global \<open>droneFlag\<close> agrees with what the page shows: when it is true the drone
  container is displayed and the Scratch stage hidden, when it is false the reverse.
  Phantom 4's \<open>changeStage\<close> writes flag and elements together and cannot stop
  half-way while both elements exist.  With Tello or Mambo loaded as well, the page's own
  \<open>changeStage(n)\<close>, which is not in the repository, may switch the same elements, so
  nothing is claimed there.\<close>

theorem vm_flag_shows_stage:
  assumes "vm_reach s" and "set (loaded s) \<subseteq> {DjiPhantom4}"
  shows "flag_shows (droneFlag (vm_page s)) (document (vm_page s))"
proof -
  have "set (loaded s) \<subseteq> {DjiPhantom4} \<longrightarrow> flag_shows (droneFlag (vm_page s)) (document (vm_page s))"
    using assms(1)
  proof (induction rule: vm_reach.induct)
    case (init p)
    then show ?case by (simp add: host_ready_def flag_shows_def)
  next
    case (step s t)
    show ?case
    proof
      assume only: "set (loaded t) \<subseteq> {DjiPhantom4}"
      from step.hyps(2) show "flag_shows (droneFlag (vm_page t)) (document (vm_page t))"
      proof (cases rule: vm_step.cases)
        case (load e)
        with only step.IH show ?thesis by (auto simp: page_simps phantom4_new_def)
      next
        case (run e c)
        with only have p4: "e = DjiPhantom4" and ih: "flag_shows (droneFlag (vm_page s)) (document (vm_page s))"
          using step.IH by auto
        from vm_reach_inv [OF step.hyps(1)] obtain e1 e2
          where e1: "document (vm_page s) ''scratch_stage'' = Some e1"
          and e2: "document (vm_page s) ''gameContainer_drone'' = Some e2"
          by (auto simp: vm_inv_def)
        with run p4 show ?thesis using phantom4_call_flag_shows [OF e1 e2 ih] by simp
      qed
    qed
  qed
  with assms(2) show ?thesis by blast
qed

theorem vm_flag_shows_stage_witness:
  "vm_reach \<lparr>vm_page = fst (phantom4_call (ChangeStage s_simulator) (phantom4_new blank_page)),
             loaded = [DjiPhantom4]\<rparr> \<and>
   droneFlag (fst (phantom4_call (ChangeStage s_simulator) (phantom4_new blank_page))) = Some True \<and>
   flag_shows (droneFlag (fst (phantom4_call (ChangeStage s_simulator) (phantom4_new blank_page))))
              (document (fst (phantom4_call (ChangeStage s_simulator) (phantom4_new blank_page))))"
proof -
  have r2: "vm_reach \<lparr>vm_page = fst (phantom4_call (ChangeStage s_simulator) (phantom4_new blank_page)),
             loaded = [DjiPhantom4]\<rparr>"
    using vm_reach_run [OF vm_reach_load [OF vm_reach_blank, of DjiPhantom4], of DjiPhantom4
                        "ChangeStage s_simulator"]
    by (simp add: opcodes_phantom4)
  have f: "droneFlag (fst (phantom4_call (ChangeStage s_simulator) (phantom4_new blank_page))) = Some True"
    by (simp add: phantom4_changeStage_def phantom4_new_def js_then_def set_elem_def blank_page_def
                  page_simps)
  have o: "set (loaded \<lparr>vm_page = fst (phantom4_call (ChangeStage s_simulator) (phantom4_new blank_page)),
             loaded = [DjiPhantom4]\<rparr>) \<subseteq> {DjiPhantom4}" by simp
  show ?thesis using vm_flag_shows_stage [OF r2 o] r2 f by simp
qed

section \<open>What the blocks can and cannot send\<close>

text \<open>C16: liveness.  From every reachable state, every command in range that a loaded
  extension has a block for can be sent in one step: some block of that extension's
  catalog, run next, adds exactly that command to the simulator's decoded log.\<close>

theorem vm_command_live:
  assumes "vm_reach s" and "e \<in> set (loaded s)" and "ext_sends e cmd" and "cmd_in_range cmd"
  shows "\<exists>t. vm_step s t \<and> vm_reach t \<and> cmd_log (sent (vm_page t)) = cmd_log (sent (vm_page s)) @ [Some cmd]"
proof -
  let ?t = "s\<lparr>vm_page := fst (ext_call e (call_for cmd) (vm_page s))\<rparr>"
  from ext_cmds_call_for [OF assms(3,4)]
  have c: "ext_cmds e (call_for cmd) = [Some cmd]"
    and o: "call_opcode (call_for cmd) \<in> set (opcodes (ext_info e))" by auto
  have st: "vm_step s ?t" by (rule vm_step.run [OF assms(2) o])
  moreover have "vm_reach ?t" using vm_reach_run [OF assms(1,2) o] .
  moreover have "cmd_log (sent (vm_page ?t)) = cmd_log (sent (vm_page s)) @ [Some cmd]"
    using ext_call_log [OF vm_reach_inv [OF assms(1)] assms(2) o] c by simp
  ultimately show ?thesis by blast
qed

theorem vm_command_live_witness:
  "vm_reach \<lparr>vm_page = fst (tello_call (SetGaz s_down 150) (tello_new blank_page)),
             loaded = [DjiTello]\<rparr> \<and>
   DjiTello \<in> set [DjiTello] \<and> ext_sends DjiTello (CmdFlip 4) \<and> cmd_in_range (CmdFlip 4) \<and>
   (\<exists>t. vm_step \<lparr>vm_page = fst (tello_call (SetGaz s_down 150) (tello_new blank_page)),
             loaded = [DjiTello]\<rparr> t \<and> vm_reach t \<and>
      cmd_log (sent (vm_page t)) =
        cmd_log (sent (fst (tello_call (SetGaz s_down 150) (tello_new blank_page)))) @ [Some (CmdFlip 4)])"
proof -
  have l: "DjiTello \<in> set (loaded \<lparr>vm_page = fst (tello_call (SetGaz s_down 150) (tello_new blank_page)),
             loaded = [DjiTello]\<rparr>)" by simp
  have e: "ext_sends DjiTello (CmdFlip 4)" and r: "cmd_in_range (CmdFlip 4)" by simp_all
  show ?thesis using vm_command_live [OF vm_reach_example l e r] vm_reach_example e r by simp
qed

text \<open>C17: the Tello extension never sends a command it has no block for: whatever the
  call and the page, the messages it adds decode to commands other than grab, shoot and
  picture (its \<open>picture\<close> handler has the call commented out, and the class has no
  \<open>grab\<close> or \<open>shoot\<close>).\<close>

theorem tello_sends_supported:
  "\<exists>ms. sent (fst (tello_call c pg)) = sent pg @ ms \<and>
        (\<forall>m\<in>set ms. \<exists>cmd. decode_cmd (msg_value m) = Some cmd \<and> ext_sends DjiTello cmd)"
proof (cases "djiTelloInstance pg")
  case None
  then show ?thesis using tello_call_no_instance by auto
next
  case (Some u)
  show ?thesis
  proof (cases "spec_cmd c = None \<or> c = Picture \<or> call_opcode c \<in> {''grab'', ''shoot''}")
    case True
    then show ?thesis using tello_call_quiet by auto
  next
    case False
    then obtain cmd where "spec_cmd c = Some cmd" "c \<noteq> Picture" "call_opcode c \<notin> {''grab'', ''shoot''}"
      by auto
    with Some show ?thesis using tello_call_sends tello_spec_sends
      by (auto simp: drone_msg_def decode_encode_cmd)
  qed
qed

theorem tello_sends_supported_witness:
  "(\<exists>ms. sent (fst (tello_call Takeoff (tello_new blank_page))) = sent (tello_new blank_page) @ ms \<and>
        (\<forall>m\<in>set ms. \<exists>cmd. decode_cmd (msg_value m) = Some cmd \<and> ext_sends DjiTello cmd)) \<and>
   sent (fst (tello_call Takeoff (tello_new blank_page))) \<noteq> sent (tello_new blank_page)"
proof -
  have "sent (fst (tello_call Takeoff (tello_new blank_page))) \<noteq> sent (tello_new blank_page)"
    by (simp add: tello_takeoff_def tello_new_def page_simps)
  then show ?thesis using tello_sends_supported [of Takeoff "tello_new blank_page"] by blast
qed

section \<open>Routing through the Unity instances\<close>

text \<open>C19: in every reachable state, a call of a loaded extension sends only through that
  extension's own Unity instance, the one its constructor created: Tello never sends
  through Mambo's \<open>gameInstance\<close> nor Mambo through \<open>djiTelloInstance\<close>, no handler
  replaces an instance, and Phantom 4, which creates none, sends nothing.\<close>

theorem vm_call_routing:
  assumes "vm_reach s" and "e \<in> set (loaded s)"
  shows "\<exists>ms. sent (fst (ext_call e c (vm_page s))) = sent (vm_page s) @ ms \<and>
             (\<forall>m\<in>set ms. Some (msg_instance m) = ext_unity e)"
proof -
  have inv: "vm_inv s" by (rule vm_reach_inv [OF assms(1)])
  show ?thesis
  proof (cases e)
    case DjiPhantom4
    then show ?thesis by (simp add: page_simps)
  next
    case DjiTello
    with inv assms(2) have i: "djiTelloInstance (vm_page s) = ext_unity DjiTello" by (simp add: vm_inv_def)
    from tello_call_via [of c "vm_page s"] obtain ms
      where "sent (fst (tello_call c (vm_page s))) = sent (vm_page s) @ ms"
        and "\<forall>m\<in>set ms. djiTelloInstance (vm_page s) = Some (msg_instance m)" by blast
    with DjiTello i show ?thesis by auto
  next
    case ParrotMambo
    with inv assms(2) have i: "gameInstance (vm_page s) = ext_unity ParrotMambo" by (simp add: vm_inv_def)
    from mambo_call_via [of c "vm_page s"] obtain ms
      where "sent (fst (mambo_call c (vm_page s))) = sent (vm_page s) @ ms"
        and "\<forall>m\<in>set ms. gameInstance (vm_page s) = Some (msg_instance m)" by blast
    with ParrotMambo i show ?thesis by auto
  qed
qed

theorem vm_call_routing_witness:
  "vm_reach \<lparr>vm_page = fst (tello_call (SetGaz s_down 150) (tello_new blank_page)),
             loaded = [DjiTello]\<rparr> \<and> DjiTello \<in> set [DjiTello] \<and>
   (\<exists>ms. sent (fst (ext_call DjiTello Takeoff (fst (tello_call (SetGaz s_down 150) (tello_new blank_page))))) =
          sent (fst (tello_call (SetGaz s_down 150) (tello_new blank_page))) @ ms \<and>
        (\<forall>m\<in>set ms. Some (msg_instance m) =
           Some (unity_instantiate ''djiTello_drone'' ''static/dji_tello/dji_tello.json'')))"
proof -
  have l: "DjiTello \<in> set (loaded \<lparr>vm_page = fst (tello_call (SetGaz s_down 150) (tello_new blank_page)),
             loaded = [DjiTello]\<rparr>)" by simp
  show ?thesis using vm_call_routing [OF vm_reach_example l, of Takeoff] vm_reach_example by simp
qed

section \<open>Interleaving Phantom 4 with Tello and Mambo\<close>

text \<open>C21: a Phantom 4 block and a Tello or Mambo command block commute.  Run in either
  order on any page, they leave the same page, and each returns what it returns when run
  alone.  Phantom 4 only touches the DOM and \<open>droneFlag\<close>; a Tello or Mambo block other
  than \<open>changeStage\<close> only appends to the message log.  So the runtime's interleaving of
  Phantom 4 scripts with the others' command blocks cannot change the outcome.  Tello's
  and Mambo's \<open>changeStage\<close> are excluded: they call the page's \<open>changeStage\<close>, whose
  effect on the DOM is outside the model.\<close>

theorem phantom4_commutes:
  assumes "e \<noteq> DjiPhantom4" and "\<forall>m. c2 \<noteq> ChangeStage m"
  shows "fst (ext_call e c2 (fst (phantom4_call c1 pg))) = fst (phantom4_call c1 (fst (ext_call e c2 pg))) \<and>
         snd (ext_call e c2 (fst (phantom4_call c1 pg))) = snd (ext_call e c2 pg) \<and>
         snd (phantom4_call c1 (fst (ext_call e c2 pg))) = snd (phantom4_call c1 pg)"
proof -
  define P where "P = fst (phantom4_call c1 pg)"
  define T where "T = fst (ext_call e c2 pg)"
  have p: "P = pg\<lparr>document := document P, droneFlag := droneFlag P\<rparr>"
    unfolding P_def by (rule phantom4_call_confined)
  have t: "T = pg\<lparr>sent := sent T\<rparr>"
    unfolding T_def by (rule ext_call_confined [OF assms])
  have et: "ext_call e c2 P = (T\<lparr>document := document P, droneFlag := droneFlag P\<rparr>, snd (ext_call e c2 pg))"
    by (subst p) (simp only: ext_call_indep [OF assms] T_def)
  have pt: "phantom4_call c1 T = (P\<lparr>sent := sent T\<rparr>, snd (phantom4_call c1 pg))"
  proof -
    have "phantom4_call c1 T = phantom4_call c1 (pg\<lparr>stageId := stageId pg, stage_calls := stage_calls pg, sent := sent T\<rparr>)"
      by (subst t) simp
    moreover have "stageId P = stageId pg" "stage_calls P = stage_calls pg"
      by (subst p, simp)+
    ultimately show ?thesis by (simp only: phantom4_call_indep P_def) simp
  qed
  have "T\<lparr>document := document P, droneFlag := droneFlag P\<rparr> = P\<lparr>sent := sent T\<rparr>"
    by (subst p, subst t) simp
  with et pt show ?thesis by (simp add: P_def T_def)
qed

theorem phantom4_commutes_witness:
  "DjiTello \<noteq> DjiPhantom4 \<and> (\<forall>m. Takeoff \<noteq> ChangeStage m) \<and>
   fst (ext_call DjiTello Takeoff (fst (phantom4_call (ChangeStage s_simulator) (tello_new blank_page)))) =
   fst (phantom4_call (ChangeStage s_simulator) (fst (ext_call DjiTello Takeoff (tello_new blank_page)))) \<and>
   droneFlag (fst (ext_call DjiTello Takeoff (fst (phantom4_call (ChangeStage s_simulator)
     (tello_new blank_page))))) = Some True"
proof -
  have e: "DjiTello \<noteq> DjiPhantom4" by simp
  have c: "\<forall>m. Takeoff \<noteq> ChangeStage m" by simp
  have f: "droneFlag (fst (phantom4_call (ChangeStage s_simulator) (fst (ext_call DjiTello Takeoff
             (tello_new blank_page))))) = Some True"
    by (simp add: phantom4_changeStage_def js_then_def set_elem_def tello_takeoff_def tello_new_def
                  send_message_def blank_page_def page_simps)
  show ?thesis
    using phantom4_commutes [OF e c, of "ChangeStage s_simulator" "tello_new blank_page"] e c f
    by simp
qed

end
